theory Spec2Isabelle
  imports Main
begin

section \<open>JavaScript values\<close>

text \<open>
  The fields of a JSON request body and of a stored document are JavaScript values. Only
  the primitive ones are modelled (a JSON number as an integer); \<open>JUndefined\<close> is what
  reading an absent property gives.
\<close>

datatype jsval = JUndefined | JNull | JBool bool | JNum int | JStr string

text \<open>\<open>!v\<close> is \<open>\<not> truthy v\<close>.\<close>

fun truthy :: "jsval \<Rightarrow> bool" where
  "truthy JUndefined = False"
| "truthy JNull = False"
| "truthy (JBool b) = b"
| "truthy (JNum n) = (n \<noteq> 0)"
| "truthy (JStr s) = (s \<noteq> [])"

text \<open>An optional string (a header, a query parameter, a cache reply) as a value.\<close>

fun ofOpt :: "string option \<Rightarrow> jsval" where
  "ofOpt None = JUndefined"
| "ofOpt (Some s) = JStr s"

text \<open>\<open>s.split(c)\<close> for a one-character separator: never the empty list.\<close>

fun split :: "char \<Rightarrow> string \<Rightarrow> string list" where
  "split c [] = [[]]"
| "split c (x # xs) =
     (if x = c then [] # split c xs
      else (case split c xs of [] \<Rightarrow> [[x]] | w # ws \<Rightarrow> (x # w) # ws))"

text \<open>\<open>xs[i]\<close>: \<open>undefined\<close> (here \<open>None\<close>) out of range.\<close>

definition at :: "'a list \<Rightarrow> nat \<Rightarrow> 'a option" where
  "at xs i = (if i < length xs then Some (xs ! i) else None)"

text \<open>
  \<open>parseInt(s, 10)\<close>: leading white space, an optional sign, then the longest run of
  decimal digits; \<open>None\<close> is NaN. The value is the exact integer: JavaScript's is a
  double, which is the same number below \<open>2^53\<close> and a rounded one above.
\<close>

definition isSpace :: "char \<Rightarrow> bool" where
  "isSpace c = (c \<in> set [CHR '' '', CHR 0x09, CHR 0x0A, CHR 0x0B, CHR 0x0C, CHR 0x0D])"

definition isDigit :: "char \<Rightarrow> bool" where
  "isDigit c = (48 \<le> (of_char c :: nat) \<and> (of_char c :: nat) \<le> 57)"

definition digitsValue :: "string \<Rightarrow> int" where
  "digitsValue ds = foldl (\<lambda>a c. 10 * a + (of_char c - 48)) 0 ds"

definition parseInt :: "jsval \<Rightarrow> int option" where
  "parseInt v =
     (case v of
        JStr s \<Rightarrow>
          (let t = dropWhile isSpace s;
               neg = (case t of [] \<Rightarrow> False | c # _ \<Rightarrow> c = CHR ''-'');
               u = (case t of [] \<Rightarrow> []
                    | c # r \<Rightarrow> if c = CHR ''-'' \<or> c = CHR ''+'' then r else t);
               ds = takeWhile isDigit u
           in if ds = [] then None
              else Some (if neg then - digitsValue ds else digitsValue ds))
      | _ \<Rightarrow> None)"

section \<open>Documents, stores and the libraries\<close>

text \<open>A MongoDB ObjectId, by its hexadecimal string.\<close>

datatype oid = Oid string

fun toString :: "oid \<Rightarrow> string" where
  "toString (Oid h) = h"

text \<open>\<open>parentId\<close> of a stored file: the number \<open>0\<close> (the root) or an ObjectId.\<close>

datatype parentRef = Root | Ref oid

record user =
  user_id :: oid
  email :: string
  password :: string

record fileDoc =
  file_id :: oid
  userId :: oid
  name :: jsval
  type :: jsval
  isPublic :: jsval
  parentId :: parentRef
  localPath :: "string option"

text \<open>
  The state the handlers share: the two collections in natural (insertion) order, the
  Redis keys with their value and time to live, the files on disk, and the jobs of
  \<open>fileQueue\<close>.
\<close>

record state =
  users :: "user list"
  files :: "fileDoc list"
  cache :: "string \<rightharpoonup> string \<times> nat option"
  disk :: "string \<rightharpoonup> string"
  fileQueue :: "(string \<times> string) list"

text \<open>
  What the handlers take from packages outside the repository, and from the process
  environment:
  \<^item> \<open>ObjectId\<close> of the MongoDB driver, \<open>None\<close> where the constructor throws (from a
    string it is a function of the string; from a number or \<open>null\<close> the driver generates
    an identifier, and the model takes the same one at each call);
  \<^item> \<open>base64\<close>: \<open>Buffer.from(s, 'base64')\<close>, and \<open>base64ascii\<close> the same followed by
    \<open>.toString('ascii')\<close>;
  \<^item> \<open>sha1\<close>, \<open>path.join\<close> and \<open>mime.lookup\<close> (\<open>None\<close> for \<open>false\<close>);
  \<^item> \<open>FOLDER_PATH\<close>: \<open>process.env.FOLDER_PATH\<close>.
\<close>

record env =
  ObjectId :: "jsval \<Rightarrow> oid option"
  base64 :: "string \<Rightarrow> string"
  base64ascii :: "string \<Rightarrow> string"
  sha1 :: "string \<Rightarrow> string"
  pathJoin :: "string \<Rightarrow> string \<Rightarrow> string"
  mimeLookup :: "jsval \<Rightarrow> string option"
  FOLDER_PATH :: "string option"

text \<open>An Express request, and what a handler leaves behind.\<close>

record request =
  headers :: "string \<rightharpoonup> string"
  body :: "string \<Rightarrow> jsval"
  query :: "string \<rightharpoonup> string"
  params :: "string \<rightharpoonup> string"

datatype payload =
    Error string
  | Token string
  | Node fileDoc
  | Created fileDoc
  | Nodes "fileDoc list"
  | Bytes string string
  | Null
  | Empty

text \<open>
  \<open>Reply status payload\<close> is \<open>res.status(status)\<close> with a body; \<open>Rejected\<close> is an
  exception that leaves the handler: its promise rejects and the handler sends nothing.
\<close>

datatype reply = Reply nat payload | Rejected

subsection \<open>utils/redis.js\<close>

definition redis_get :: "state \<Rightarrow> string \<Rightarrow> string option" where
  "redis_get s key = map_option fst (cache s key)"

definition redis_expire :: "string \<Rightarrow> nat \<Rightarrow> state \<Rightarrow> state" where
  "redis_expire key duration s =
     (case cache s key of
        None \<Rightarrow> s
      | Some (v, _) \<Rightarrow> s\<lparr>cache := (cache s)(key \<mapsto> (v, Some duration))\<rparr>)"

definition redis_set :: "string \<Rightarrow> string \<Rightarrow> nat \<Rightarrow> state \<Rightarrow> state" where
  "redis_set key v duration s =
     redis_expire key duration (s\<lparr>cache := (cache s)(key \<mapsto> (v, None))\<rparr>)"

definition redis_del :: "string \<Rightarrow> state \<Rightarrow> state" where
  "redis_del key s = s\<lparr>cache := (cache s)(key := None)\<rparr>"

subsection \<open>The collection operations the handlers call\<close>

text \<open>
  \<open>findOne\<close> is \<open>List.find\<close>: the first document in natural order. \<open>updateOne\<close> changes
  that first document only. \<open>insertOne\<close> appends; the identifier is the one the driver
  generates, and the unique index on \<open>_id\<close> rejects one that is in use.
\<close>

fun updateOne :: "('a \<Rightarrow> bool) \<Rightarrow> ('a \<Rightarrow> 'a) \<Rightarrow> 'a list \<Rightarrow> 'a list" where
  "updateOne P f [] = []"
| "updateOne P f (x # xs) = (if P x then f x # xs else x # updateOne P f xs)"

definition insertOne :: "fileDoc \<Rightarrow> state \<Rightarrow> state option" where
  "insertOne d s =
     (if file_id d \<in> set (map file_id (files s)) then None
      else Some (s\<lparr>files := files s @ [d]\<rparr>))"

section \<open>controllers/AuthController.js\<close>

definition unauthorized :: reply where
  "unauthorized = Reply 401 (Error ''Unauthorized'')"

text \<open>\<open>uuid\<close> is the value \<open>uuidv4()\<close> returns in this call.\<close>

definition getConnect :: "env \<Rightarrow> string \<Rightarrow> request \<Rightarrow> state \<Rightarrow> reply \<times> state" where
  "getConnect e uuid req s =
     (case headers req ''authorization'' of
        None \<Rightarrow> (unauthorized, s)
      | Some authHeader \<Rightarrow>
          if authHeader = [] \<or> take 6 authHeader \<noteq> ''Basic '' then (unauthorized, s)
          else
            (case at (split CHR '' '' authHeader) 1 of
               None \<Rightarrow> (Rejected, s)
             | Some base64Credentials \<Rightarrow>
                 let credentials = base64ascii e base64Credentials;
                     parts = split CHR '':'' credentials;
                     email' = ofOpt (at parts 0);
                     password' = ofOpt (at parts 1)
                 in if \<not> truthy email' \<or> \<not> truthy password' then (unauthorized, s)
                    else
                      (case (email', password') of
                         (JStr em, JStr pw) \<Rightarrow>
                           (let hashedPassword = sha1 e pw in
                            case find (\<lambda>u. email u = em \<and> password u = hashedPassword)
                                   (users s) of
                              None \<Rightarrow> (unauthorized, s)
                            | Some usr \<Rightarrow>
                                (let tokenKey = ''auth_'' @ uuid in
                                 (Reply 200 (Token uuid),
                                  redis_set tokenKey (toString (user_id usr)) 86400 s)))
                       | _ \<Rightarrow> (unauthorized, s))))"

definition getDisconnect :: "request \<Rightarrow> state \<Rightarrow> reply \<times> state" where
  "getDisconnect req s =
     (let token = ofOpt (headers req ''x-token'') in
      if \<not> truthy token then (unauthorized, s)
      else
        (case token of
           JStr t \<Rightarrow>
             (let tokenKey = ''auth_'' @ t;
                  userId' = ofOpt (redis_get s tokenKey)
              in if \<not> truthy userId' then (unauthorized, s)
                 else (Reply 204 Empty, redis_del tokenKey s))
         | _ \<Rightarrow> (unauthorized, s)))"

section \<open>controllers/FilesController.js\<close>

text \<open>
  The opening lines every handler but \<open>getFile\<close> repeats: the user identifier the token
  stands for, \<open>None\<close> where the handler answers 401.
\<close>

definition tokenUser :: "request \<Rightarrow> state \<Rightarrow> string option" where
  "tokenUser req s =
     (case headers req ''x-token'' of
        None \<Rightarrow> None
      | Some token \<Rightarrow>
          if token = [] then None
          else (case redis_get s (''auth_'' @ token) of
                  None \<Rightarrow> None
                | Some u \<Rightarrow> if u = [] then None else Some u))"

definition notFound :: reply where
  "notFound = Reply 404 (Error ''Not found'')"

definition bad :: "string \<Rightarrow> reply" where
  "bad msg = Reply 400 (Error msg)"

text \<open>
  \<open>postUpload\<close>, lines 54 to 66: the check of the parent. \<open>Some\<close> is the way the handler
  leaves at this point, \<open>None\<close> lets it go on.
\<close>

definition parentCheck :: "env \<Rightarrow> state \<Rightarrow> jsval \<Rightarrow> reply option" where
  "parentCheck e s parentId' =
     (if parentId' \<noteq> JNum 0
      then (case ObjectId e parentId' of
              None \<Rightarrow> Some Rejected
            | Some pid \<Rightarrow>
                (case find (\<lambda>d. file_id d = pid) (files s) of
                   None \<Rightarrow> Some (bad ''Parent not found'')
                 | Some parentFile \<Rightarrow>
                     if type parentFile \<noteq> JStr ''folder''
                     then Some (bad ''Parent is not a folder'')
                     else None))
      else None)"

text \<open>
  \<open>postUpload\<close>, lines 68 to 107: the document, the blob for a file or an image, the
  insertion and the thumbnail job. \<open>uuid\<close> is the value of \<open>uuidv4()\<close>, \<open>insertedId\<close>
  the identifier the driver gives the new document. \<open>Buffer.from\<close> throws on a value that
  is not a string.
\<close>

definition folderPath :: "env \<Rightarrow> string" where
  "folderPath e =
     (case FOLDER_PATH e of
        None \<Rightarrow> ''/tmp/files_manager''
      | Some p \<Rightarrow> if p = [] then ''/tmp/files_manager'' else p)"

definition persist ::
  "env \<Rightarrow> string \<Rightarrow> oid \<Rightarrow> string \<Rightarrow> jsval \<Rightarrow> jsval \<Rightarrow> jsval \<Rightarrow> jsval \<Rightarrow> jsval \<Rightarrow> state
   \<Rightarrow> reply \<times> state" where
  "persist e uuid insertedId uid name' type' isPublic' parentId' data s =
     (case ObjectId e (JStr uid) of
        None \<Rightarrow> (Rejected, s)
      | Some owner \<Rightarrow>
          (case (if parentId' \<noteq> JNum 0 then map_option Ref (ObjectId e parentId')
                 else Some Root) of
             None \<Rightarrow> (Rejected, s)
           | Some parent \<Rightarrow>
               let fileDocument =
                     \<lparr>file_id = insertedId, userId = owner, name = name', type = type',
                      isPublic = isPublic', parentId = parent, localPath = None\<rparr>
               in
               if type' = JStr ''folder'' then
                 (case insertOne fileDocument s of
                    None \<Rightarrow> (Rejected, s)
                  | Some s' \<Rightarrow> (Reply 201 (Created fileDocument), s'))
               else
                 (let path = pathJoin e (folderPath e) uuid
                  in case data of
                       JStr d \<Rightarrow>
                         (let s1 = s\<lparr>disk := (disk s)(path \<mapsto> base64 e d)\<rparr>;
                              stored = fileDocument\<lparr>localPath := Some path\<rparr>
                          in case insertOne stored s1 of
                               None \<Rightarrow> (Rejected, s1)
                             | Some s2 \<Rightarrow>
                                 (Reply 201 (Created stored),
                                  if type' = JStr ''image''
                                  then s2\<lparr>fileQueue := fileQueue s2
                                             @ [(uid, toString insertedId)]\<rparr>
                                  else s2))
                     | _ \<Rightarrow> (Rejected, s))))"

definition postUpload ::
  "env \<Rightarrow> string \<Rightarrow> oid \<Rightarrow> request \<Rightarrow> state \<Rightarrow> reply \<times> state" where
  "postUpload e uuid insertedId req s =
     (case tokenUser req s of
        None \<Rightarrow> (unauthorized, s)
      | Some uid \<Rightarrow>
          let name' = body req ''name'';
              type' = body req ''type'';
              parentId' = (case body req ''parentId'' of JUndefined \<Rightarrow> JNum 0 | v \<Rightarrow> v);
              isPublic' = (case body req ''isPublic'' of JUndefined \<Rightarrow> JBool False | v \<Rightarrow> v);
              data = body req ''data''
          in
          if \<not> truthy name' then (bad ''Missing name'', s)
          else if \<not> truthy type'
                  \<or> type' \<notin> set [JStr ''folder'', JStr ''file'', JStr ''image'']
          then (bad ''Missing type'', s)
          else if \<not> truthy data \<and> type' \<noteq> JStr ''folder'' then (bad ''Missing data'', s)
          else
            (case parentCheck e s parentId' of
               Some r \<Rightarrow> (r, s)
             | None \<Rightarrow>
                 persist e uuid insertedId uid name' type' isPublic' parentId' data s))"

definition getShow :: "env \<Rightarrow> request \<Rightarrow> state \<Rightarrow> reply \<times> state" where
  "getShow e req s =
     (case tokenUser req s of
        None \<Rightarrow> (unauthorized, s)
      | Some uid \<Rightarrow>
          (case ObjectId e (ofOpt (params req ''id'')) of
             None \<Rightarrow> (Rejected, s)
           | Some fileId \<Rightarrow>
               (case ObjectId e (JStr uid) of
                  None \<Rightarrow> (Rejected, s)
                | Some owner \<Rightarrow>
                    (case find (\<lambda>d. file_id d = fileId \<and> userId d = owner) (files s) of
                       None \<Rightarrow> (notFound, s)
                     | Some file \<Rightarrow> (Reply 200 (Node file), s)))))"

text \<open>
  \<open>getIndex\<close>: the \<open>$match\<close>, \<open>$skip\<close> and \<open>$limit\<close> stages over the collection in natural
  order. MongoDB refuses a negative \<open>$skip\<close>: the aggregation throws. The model is the
  code for a \<open>page * pageSize\<close> below \<open>2^53\<close>; beyond, the code's product is a rounded
  double, and the server refuses a \<open>$skip\<close> that is no 64-bit integer.
\<close>

definition getIndex :: "env \<Rightarrow> request \<Rightarrow> state \<Rightarrow> reply \<times> state" where
  "getIndex e req s =
     (case tokenUser req s of
        None \<Rightarrow> (unauthorized, s)
      | Some uid \<Rightarrow>
          let parentId' = (if truthy (ofOpt (query req ''parentId''))
                           then ofOpt (query req ''parentId'') else JNum 0);
              page = (case parseInt (ofOpt (query req ''page'')) of
                        None \<Rightarrow> 0
                      | Some n \<Rightarrow> n);
              pageSize = 20
          in
          (case (if parentId' = JStr ''0'' then Some Root
                 else map_option Ref (ObjectId e parentId')) of
             None \<Rightarrow> (Rejected, s)
           | Some parent \<Rightarrow>
               (case ObjectId e (JStr uid) of
                  None \<Rightarrow> (Rejected, s)
                | Some owner \<Rightarrow>
                    if page * pageSize < 0 then (Rejected, s)
                    else
                      (Reply 200
                         (Nodes (take (nat pageSize)
                                   (drop (nat (page * pageSize))
                                      (filter (\<lambda>d. parentId d = parent \<and> userId d = owner)
                                         (files s))))),
                       s))))"

text \<open>\<open>putPublish\<close> and \<open>putUnpublish\<close> differ in the flag they set.\<close>

definition setPublic :: "bool \<Rightarrow> env \<Rightarrow> request \<Rightarrow> state \<Rightarrow> reply \<times> state" where
  "setPublic flag e req s =
     (case tokenUser req s of
        None \<Rightarrow> (unauthorized, s)
      | Some uid \<Rightarrow>
          (case ObjectId e (ofOpt (params req ''id'')) of
             None \<Rightarrow> (Rejected, s)
           | Some fileId \<Rightarrow>
               (case ObjectId e (JStr uid) of
                  None \<Rightarrow> (Rejected, s)
                | Some owner \<Rightarrow>
                    (case find (\<lambda>d. file_id d = fileId \<and> userId d = owner) (files s) of
                       None \<Rightarrow> (notFound, s)
                     | Some file \<Rightarrow>
                         (let s' = s\<lparr>files :=
                                       updateOne (\<lambda>d. file_id d = fileId \<and> userId d = owner)
                                         (\<lambda>d. d\<lparr>isPublic := JBool flag\<rparr>) (files s)\<rparr>
                          in case find (\<lambda>d. file_id d = fileId) (files s') of
                               None \<Rightarrow> (Reply 200 Null, s')
                             | Some updatedFile \<Rightarrow> (Reply 200 (Node updatedFile), s'))))))"

definition putPublish :: "env \<Rightarrow> request \<Rightarrow> state \<Rightarrow> reply \<times> state" where
  "putPublish = setPublic True"

definition putUnpublish :: "env \<Rightarrow> request \<Rightarrow> state \<Rightarrow> reply \<times> state" where
  "putUnpublish = setPublic False"

text \<open>
  The path \<open>getFile\<close> reads: \<open>localPath\<close>, or \<open>`${file.localPath}_${size}`\<close> for one of
  the three sizes; \<open>None\<close> is \<open>undefined\<close>, which \<open>readFile\<close> refuses.
\<close>

definition filePath :: "fileDoc \<Rightarrow> string option \<Rightarrow> string option" where
  "filePath file sz =
     (case sz of
        None \<Rightarrow> localPath file
      | Some z \<Rightarrow>
          if z \<noteq> [] \<and> z \<in> set [''100'', ''250'', ''500'']
          then Some ((case localPath file of None \<Rightarrow> ''undefined'' | Some p \<Rightarrow> p)
                       @ ''_'' @ z)
          else localPath file)"

definition mimeType :: "env \<Rightarrow> fileDoc \<Rightarrow> string" where
  "mimeType e file =
     (case mimeLookup e (name file) of
        None \<Rightarrow> ''application/octet-stream''
      | Some m \<Rightarrow> m)"

definition noContent :: string where
  "noContent = ''A folder doesn'' @ [CHR 0x27] @ ''t have content''"

definition getFile :: "env \<Rightarrow> request \<Rightarrow> state \<Rightarrow> reply \<times> state" where
  "getFile e req s =
     (case ObjectId e (ofOpt (params req ''id'')) of
        None \<Rightarrow> (Rejected, s)
      | Some fileId \<Rightarrow>
          (case find (\<lambda>d. file_id d = fileId) (files s) of
             None \<Rightarrow> (notFound, s)
           | Some file \<Rightarrow>
               let token = headers req ''x-token'';
                   uid = (case token of
                            None \<Rightarrow> None
                          | Some t \<Rightarrow> if t = [] then None else redis_get s (''auth_'' @ t))
               in
               if \<not> truthy (isPublic file)
                  \<and> (\<not> truthy (ofOpt uid) \<or> uid \<noteq> Some (toString (userId file)))
               then (notFound, s)
               else if type file = JStr ''folder'' then (bad noContent, s)
               else
                 (case (case filePath file (query req ''size'') of
                          None \<Rightarrow> None
                        | Some p \<Rightarrow> disk s p) of
                    None \<Rightarrow> (notFound, s)
                  | Some fileData \<Rightarrow>
                      (Reply 200 (Bytes (mimeType e file) fileData), s))))"

section \<open>The HTTP surface\<close>

text \<open>
  Modelled from the spec: the routing table (\<open>routes/index.js\<close>) is not among the source
  files; these are the routes of the specification's HTTP surface that reach the two
  controllers above. A call carries the request and the two values drawn while it runs.
\<close>

datatype route =
  Connect | Disconnect | Upload | Show | Index | Publish | Unpublish | Data

datatype call = Call route request string oid

fun handle :: "env \<Rightarrow> call \<Rightarrow> state \<Rightarrow> reply \<times> state" where
  "handle e (Call Connect r uuid insertedId) s = getConnect e uuid r s"
| "handle e (Call Disconnect r uuid insertedId) s = getDisconnect r s"
| "handle e (Call Upload r uuid insertedId) s = postUpload e uuid insertedId r s"
| "handle e (Call Show r uuid insertedId) s = getShow e r s"
| "handle e (Call Index r uuid insertedId) s = getIndex e r s"
| "handle e (Call Publish r uuid insertedId) s = putPublish e r s"
| "handle e (Call Unpublish r uuid insertedId) s = putUnpublish e r s"
| "handle e (Call Data r uuid insertedId) s = getFile e r s"

fun run :: "env \<Rightarrow> call list \<Rightarrow> state \<Rightarrow> state" where
  "run e [] s = s"
| "run e (c # cs) s = run e cs (snd (handle e c s))"

section \<open>Sample data\<close>

text \<open>
  The driver's \<open>ObjectId\<close> on a string: 24 hexadecimal digits name the identifier, 12
  bytes are the identifier itself, and any other string makes the constructor throw. From
  a number, \<open>null\<close> or \<open>undefined\<close> the driver generates an identifier (four bytes of time,
  then a process-unique value and a counter): the sample returns one such identifier.
\<close>

definition isHex :: "char \<Rightarrow> bool" where
  "isHex c = (c \<in> set ''0123456789abcdefABCDEF'')"

definition lower :: "char \<Rightarrow> char" where
  "lower c = (case map_of (zip ''ABCDEF'' ''abcdef'') c of None \<Rightarrow> c | Some l \<Rightarrow> l)"

definition hexByte :: "nat \<Rightarrow> string" where
  "hexByte n = [''0123456789abcdef'' ! ((n div 16) mod 16), ''0123456789abcdef'' ! (n mod 16)]"

definition sampleObjectId :: "jsval \<Rightarrow> oid option" where
  "sampleObjectId v =
     (case v of
        JStr x \<Rightarrow>
          if length x = 24 \<and> list_all isHex x then Some (Oid (map lower x))
          else if length x = 12 then Some (Oid (concat (map (\<lambda>c. hexByte (of_char c)) x)))
          else None
      | JBool b \<Rightarrow> None
      | JNum n \<Rightarrow>
          Some (Oid (concat (map (\<lambda>k. hexByte (nat (n mod 2 ^ 32) div 256 ^ k)) [3, 2, 1, 0])
                       @ ''7f3a9c51d2e4b601''))
      | _ \<Rightarrow> Some (Oid ''64b7f1c27f3a9c51d2e4b602''))"

text \<open>Base64 on the strings the sample requests carry.\<close>

definition sampleBase64 :: "string \<Rightarrow> string" where
  "sampleBase64 x =
     (case map_of
             [(''YWxpY2VAZG9lLmNvbTpzZWNyZXQ='', ''alice@doe.com:secret''),
              (''YWxpY2VAZG9lLmNvbTpzZWNyZXg='', ''alice@doe.com:secrex''),
              (''YWxpY2VAZG9lLmNvbQ=='', ''alice@doe.com''),
              (''aGk='', ''hi'')] x of
        None \<Rightarrow> []
      | Some y \<Rightarrow> y)"

text \<open>The digest, \<open>path.join\<close> and \<open>mime.lookup\<close> are stand-ins.\<close>

definition sampleEnv :: env where
  "sampleEnv =
     \<lparr>ObjectId = sampleObjectId,
      base64 = sampleBase64,
      base64ascii = sampleBase64,
      sha1 = (\<lambda>x. ''sha1:'' @ x),
      pathJoin = (\<lambda>d f. d @ ''/'' @ f),
      mimeLookup = (\<lambda>n. None),
      FOLDER_PATH = None\<rparr>"

definition aliceId :: oid where
  "aliceId = Oid ''64b7f1c2aaaaaaaaaaaa0001''"

definition bobId :: oid where
  "bobId = Oid ''64b7f1c2bbbbbbbbbbbb0002''"

text \<open>Alice's private folder \<open>Documents\<close> at the root, and her private file in it.\<close>

definition documents :: fileDoc where
  "documents =
     \<lparr>file_id = Oid ''64b7f1c2cccccccccccc0001'', userId = aliceId,
      name = JStr ''Documents'', type = JStr ''folder'', isPublic = JBool False,
      parentId = Root, localPath = None\<rparr>"

definition aTxt :: fileDoc where
  "aTxt =
     \<lparr>file_id = Oid ''64b7f1c2cccccccccccc0002'', userId = aliceId,
      name = JStr ''a.txt'', type = JStr ''file'', isPublic = JBool False,
      parentId = Ref (Oid ''64b7f1c2cccccccccccc0001''),
      localPath = Some ''/tmp/files_manager/blob-1''\<rparr>"

definition sampleState :: state where
  "sampleState =
     \<lparr>users =
        [\<lparr>user_id = aliceId, email = ''alice@doe.com'', password = ''sha1:secret''\<rparr>,
         \<lparr>user_id = bobId, email = ''bob@doe.com'', password = ''sha1:hunter2''\<rparr>],
      files = [documents, aTxt],
      cache =
        [''auth_token-a'' \<mapsto> (''64b7f1c2aaaaaaaaaaaa0001'', Some 86400),
         ''auth_token-b'' \<mapsto> (''64b7f1c2bbbbbbbbbbbb0002'', Some 86400)],
      disk = [''/tmp/files_manager/blob-1'' \<mapsto> ''hi''],
      fileQueue = []\<rparr>"

text \<open>A request with the given token, route parameter \<open>id\<close>, body and query.\<close>

definition req ::
  "string option \<Rightarrow> string option \<Rightarrow> (string \<times> jsval) list \<Rightarrow> (string \<times> string) list
   \<Rightarrow> request" where
  "req token ident bs qs =
     \<lparr>headers = (\<lambda>h. if h = ''x-token'' then token else None),
      body = (\<lambda>k. case map_of bs k of None \<Rightarrow> JUndefined | Some v \<Rightarrow> v),
      query = map_of qs,
      params = (\<lambda>k. if k = ''id'' then ident else None)\<rparr>"

definition basic :: "string \<Rightarrow> request" where
  "basic credentials =
     \<lparr>headers = [''authorization'' \<mapsto> ''Basic '' @ credentials],
      body = (\<lambda>k. JUndefined), query = Map.empty, params = Map.empty\<rparr>"

section \<open>Basic facts\<close>

lemmas replies = unauthorized_def notFound_def bad_def

lemma split_not_Nil: "split c xs \<noteq> []"
  by (induction xs) (auto split: list.splits)

lemma split_Basic:
  assumes "take 6 h = ''Basic ''"
  shows "1 < length (split CHR '' '' h)"
proof -
  have "h = ''Basic '' @ drop 6 h"
    using assms append_take_drop_id [of 6 h] by simp
  then obtain r where h: "h = ''Basic '' @ r" ..
  obtain w ws where "split CHR '' '' r = w # ws"
    using split_not_Nil [of "CHR '' ''" r] by (cases "split CHR '' '' r") auto
  then show ?thesis
    by (simp add: h)
qed

lemma at_split_Basic:
  "take 6 h = ''Basic '' \<Longrightarrow> at (split CHR '' '' h) 1 = Some (split CHR '' '' h ! 1)"
  using split_Basic [of h] by (simp add: at_def)

lemma at_0_split: "at (split c xs) 0 = Some (hd (split c xs))"
  using split_not_Nil [of c xs] by (cases "split c xs") (auto simp: at_def)

lemma redis_set_eq:
  "redis_set k v d s = s\<lparr>cache := (cache s)(k \<mapsto> (v, Some d))\<rparr>"
  by (simp add: redis_set_def redis_expire_def)

section \<open>Session manager\<close>

lemma getConnect_no_Basic:
  assumes "headers r ''authorization'' = None
           \<or> (\<exists>h. headers r ''authorization'' = Some h \<and> take 6 h \<noteq> ''Basic '')"
  shows "getConnect e uuid r s = (Reply 401 (Error ''Unauthorized''), s)"
  using assms by (auto simp: getConnect_def replies)

lemma getConnect_Basic:
  assumes "headers r ''authorization'' = Some h" and "take 6 h = ''Basic ''"
  shows "getConnect e uuid r s =
     (let parts = split CHR '':'' (base64ascii e (split CHR '' '' h ! 1)) in
      case at parts 1 of
        None \<Rightarrow> (unauthorized, s)
      | Some pw \<Rightarrow>
          if hd parts = [] \<or> pw = [] then (unauthorized, s)
          else (case find (\<lambda>u. email u = hd parts \<and> password u = sha1 e pw) (users s) of
                  None \<Rightarrow> (unauthorized, s)
                | Some usr \<Rightarrow>
                    (Reply 200 (Token uuid),
                     s\<lparr>cache := (cache s)(''auth_'' @ uuid
                                    \<mapsto> (toString (user_id usr), Some 86400))\<rparr>)))"
proof -
  have b: "at (split CHR '' '' h) 1 = Some (split CHR '' '' h ! 1)"
    using assms(2) by (rule at_split_Basic)
  have hne: "h \<noteq> []" using assms(2) by auto
  show ?thesis
    using assms(1,2) hne b
    by (simp add: getConnect_def at_0_split Let_def redis_set_eq split: option.splits)
qed

lemma getConnect_Basic_cases:
  assumes "headers r ''authorization'' = Some h" and "take 6 h = ''Basic ''"
      and "parts = split CHR '':'' (base64ascii e (split CHR '' '' h ! 1))"
  shows "(hd parts = [] \<or> at parts 1 = None \<or> at parts 1 = Some [] \<longrightarrow>
            getConnect e uuid r s = (Reply 401 (Error ''Unauthorized''), s))
       \<and> (hd parts \<noteq> [] \<and> at parts 1 = Some pw \<and> pw \<noteq> []
            \<and> (\<exists>u \<in> set (users s). email u = hd parts \<and> password u = sha1 e pw) \<longrightarrow>
            (\<exists>u \<in> set (users s). email u = hd parts \<and> password u = sha1 e pw
               \<and> getConnect e uuid r s =
                   (Reply 200 (Token uuid),
                    s\<lparr>cache := (cache s)(''auth_'' @ uuid
                                   \<mapsto> (toString (user_id u), Some 86400))\<rparr>)))
       \<and> (hd parts \<noteq> [] \<and> at parts 1 = Some pw \<and> pw \<noteq> []
            \<and> \<not> (\<exists>u \<in> set (users s). email u = hd parts \<and> password u = sha1 e pw) \<longrightarrow>
            getConnect e uuid r s = (Reply 401 (Error ''Unauthorized''), s))"
proof -
  let ?P = "\<lambda>u. email u = hd parts \<and> password u = sha1 e pw"
  note g = getConnect_Basic [OF assms(1,2), of e uuid s, folded assms(3)]
  show ?thesis
  proof (intro conjI impI)
    assume "hd parts = [] \<or> at parts 1 = None \<or> at parts 1 = Some []"
    then show "getConnect e uuid r s = (Reply 401 (Error ''Unauthorized''), s)"
      unfolding g by (auto simp: Let_def unauthorized_def split: option.splits)
  next
    assume a: "hd parts \<noteq> [] \<and> at parts 1 = Some pw \<and> pw \<noteq> []
               \<and> (\<exists>u \<in> set (users s). ?P u)"
    then have "find ?P (users s) \<noteq> None" by (auto simp: find_None_iff)
    then obtain u where u: "find ?P (users s) = Some u" by auto
    then have "u \<in> set (users s)" "?P u"
      by (auto simp: find_Some_iff)
    moreover have "getConnect e uuid r s =
                   (Reply 200 (Token uuid),
                    s\<lparr>cache := (cache s)(''auth_'' @ uuid
                                   \<mapsto> (toString (user_id u), Some 86400))\<rparr>)"
      unfolding g using a u by (simp add: Let_def)
    ultimately
    show "\<exists>u \<in> set (users s). email u = hd parts \<and> password u = sha1 e pw
               \<and> getConnect e uuid r s =
                   (Reply 200 (Token uuid),
                    s\<lparr>cache := (cache s)(''auth_'' @ uuid
                                   \<mapsto> (toString (user_id u), Some 86400))\<rparr>)"
      by blast
  next
    assume a: "hd parts \<noteq> [] \<and> at parts 1 = Some pw \<and> pw \<noteq> []
               \<and> \<not> (\<exists>u \<in> set (users s). ?P u)"
    then have "find ?P (users s) = None" by (auto simp: find_None_iff)
    with a show "getConnect e uuid r s = (Reply 401 (Error ''Unauthorized''), s)"
      unfolding g by (simp add: Let_def unauthorized_def)
  qed
qed

text \<open>
  C1. \<open>getConnect\<close> answers 401 without touching the state when the request has no
  \<open>Basic\<close> authorization header. With one, let \<open>parts\<close> be the decoded credentials split
  at \<open>:\<close>, the email its first part and the password its second. An empty email, and an
  absent or empty password, give 401. If some stored user has that email and the SHA1 of
  that password as digest, the answer is 200 with the token drawn for this call, and the
  only change of the state is the cache entry \<open>auth_<token>\<close>, which holds the
  identifier of such a user with a time to live of 86400 seconds. If no stored user has
  them, the answer is 401.
\<close>

theorem getConnect_authenticate:
  "(headers r ''authorization'' = None
      \<or> (\<exists>h. headers r ''authorization'' = Some h \<and> take 6 h \<noteq> ''Basic '') \<longrightarrow>
      getConnect e uuid r s = (Reply 401 (Error ''Unauthorized''), s))
   \<and> (\<forall>h parts pw.
        headers r ''authorization'' = Some h \<and> take 6 h = ''Basic ''
        \<and> parts = split CHR '':'' (base64ascii e (split CHR '' '' h ! 1)) \<longrightarrow>
          (hd parts = [] \<or> at parts 1 = None \<or> at parts 1 = Some [] \<longrightarrow>
             getConnect e uuid r s = (Reply 401 (Error ''Unauthorized''), s))
        \<and> (hd parts \<noteq> [] \<and> at parts 1 = Some pw \<and> pw \<noteq> []
             \<and> (\<exists>u \<in> set (users s). email u = hd parts \<and> password u = sha1 e pw) \<longrightarrow>
             (\<exists>u \<in> set (users s). email u = hd parts \<and> password u = sha1 e pw
                \<and> getConnect e uuid r s =
                    (Reply 200 (Token uuid),
                     s\<lparr>cache := (cache s)(''auth_'' @ uuid
                                    \<mapsto> (toString (user_id u), Some 86400))\<rparr>)))
        \<and> (hd parts \<noteq> [] \<and> at parts 1 = Some pw \<and> pw \<noteq> []
             \<and> \<not> (\<exists>u \<in> set (users s). email u = hd parts \<and> password u = sha1 e pw) \<longrightarrow>
             getConnect e uuid r s = (Reply 401 (Error ''Unauthorized''), s)))"
proof (rule conjI; intro allI impI)
  assume "headers r ''authorization'' = None
          \<or> (\<exists>h. headers r ''authorization'' = Some h \<and> take 6 h \<noteq> ''Basic '')"
  then show "getConnect e uuid r s = (Reply 401 (Error ''Unauthorized''), s)"
    by (rule getConnect_no_Basic)
next
  fix h parts pw
  assume a: "headers r ''authorization'' = Some h \<and> take 6 h = ''Basic ''
             \<and> parts = split CHR '':'' (base64ascii e (split CHR '' '' h ! 1))"
  then have 1: "headers r ''authorization'' = Some h"
    and 2: "take 6 h = ''Basic ''"
    and 3: "parts = split CHR '':'' (base64ascii e (split CHR '' '' h ! 1))"
    by simp_all
  show "(hd parts = [] \<or> at parts 1 = None \<or> at parts 1 = Some [] \<longrightarrow>
             getConnect e uuid r s = (Reply 401 (Error ''Unauthorized''), s))
        \<and> (hd parts \<noteq> [] \<and> at parts 1 = Some pw \<and> pw \<noteq> []
             \<and> (\<exists>u \<in> set (users s). email u = hd parts \<and> password u = sha1 e pw) \<longrightarrow>
             (\<exists>u \<in> set (users s). email u = hd parts \<and> password u = sha1 e pw
                \<and> getConnect e uuid r s =
                    (Reply 200 (Token uuid),
                     s\<lparr>cache := (cache s)(''auth_'' @ uuid
                                    \<mapsto> (toString (user_id u), Some 86400))\<rparr>)))
        \<and> (hd parts \<noteq> [] \<and> at parts 1 = Some pw \<and> pw \<noteq> []
             \<and> \<not> (\<exists>u \<in> set (users s). email u = hd parts \<and> password u = sha1 e pw) \<longrightarrow>
             getConnect e uuid r s = (Reply 401 (Error ''Unauthorized''), s))"
    by (rule getConnect_Basic_cases [OF 1 2 3])
qed

theorem getConnect_authenticate_witness:
  "fst (getConnect sampleEnv ''u-1'' (basic ''YWxpY2VAZG9lLmNvbTpzZWNyZXQ='') sampleState)
     = Reply 200 (Token ''u-1'')
   \<and> fst (getConnect sampleEnv ''u-1'' (basic ''YWxpY2VAZG9lLmNvbQ=='') sampleState)
     = Reply 401 (Error ''Unauthorized'')
   \<and> fst (getConnect sampleEnv ''u-1'' (basic ''YWxpY2VAZG9lLmNvbTpzZWNyZXg='') sampleState)
     = Reply 401 (Error ''Unauthorized'')
   \<and> fst (getConnect sampleEnv ''u-1'' (req None None [] []) sampleState)
     = Reply 401 (Error ''Unauthorized'')"
proof -
  have h: "headers (basic c) ''authorization'' = Some (''Basic '' @ c)
           \<and> take 6 (''Basic '' @ c) = ''Basic ''
           \<and> split CHR '':'' (base64ascii sampleEnv (split CHR '' '' (''Basic '' @ c) ! 1))
             = split CHR '':'' (base64ascii sampleEnv (split CHR '' '' (''Basic '' @ c) ! 1))"
    for c
    by (simp add: basic_def)
  have p1: "split CHR '':'' (base64ascii sampleEnv ''YWxpY2VAZG9lLmNvbTpzZWNyZXQ='')
        = [''alice@doe.com'', ''secret'']"
    by (simp add: sampleEnv_def sampleBase64_def)
  have p2: "split CHR '':'' (base64ascii sampleEnv ''YWxpY2VAZG9lLmNvbQ=='')
        = [''alice@doe.com'']"
    by (simp add: sampleEnv_def sampleBase64_def)
  have p3: "split CHR '':'' (base64ascii sampleEnv ''YWxpY2VAZG9lLmNvbTpzZWNyZXg='')
        = [''alice@doe.com'', ''secrex'']"
    by (simp add: sampleEnv_def sampleBase64_def)
  have u1: "\<exists>u \<in> set (users sampleState).
              email u = ''alice@doe.com'' \<and> password u = sha1 sampleEnv ''secret''"
    by (simp add: sampleState_def sampleEnv_def)
  have u3: "\<not> (\<exists>u \<in> set (users sampleState).
              email u = ''alice@doe.com'' \<and> password u = sha1 sampleEnv ''secrex'')"
    by (simp add: sampleState_def sampleEnv_def)
  have n: "headers (req None None [] []) ''authorization'' = None"
    by (simp add: req_def)
  note g = getConnect_authenticate [of _ sampleEnv "''u-1''" sampleState]
  have "fst (getConnect sampleEnv ''u-1'' (basic ''YWxpY2VAZG9lLmNvbTpzZWNyZXQ='') sampleState)
          = Reply 200 (Token ''u-1'')"
    using g [THEN conjunct2, rule_format, OF h, THEN conjunct2, THEN conjunct1,
             of "''YWxpY2VAZG9lLmNvbTpzZWNyZXQ=''" "''secret''"] u1
    by (auto simp: p1 at_def)
  moreover
  have "fst (getConnect sampleEnv ''u-1'' (basic ''YWxpY2VAZG9lLmNvbQ=='') sampleState)
          = Reply 401 (Error ''Unauthorized'')"
    using g [THEN conjunct2, rule_format, OF h, THEN conjunct1,
             of "''YWxpY2VAZG9lLmNvbQ==''"]
    by (simp add: p2 at_def)
  moreover
  have "fst (getConnect sampleEnv ''u-1'' (basic ''YWxpY2VAZG9lLmNvbTpzZWNyZXg='') sampleState)
          = Reply 401 (Error ''Unauthorized'')"
    using g [THEN conjunct2, rule_format, OF h, THEN conjunct2, THEN conjunct2,
             of "''YWxpY2VAZG9lLmNvbTpzZWNyZXg=''" "''secrex''"] u3
    by (simp add: p3 at_def)
  moreover
  have "fst (getConnect sampleEnv ''u-1'' (req None None [] []) sampleState)
          = Reply 401 (Error ''Unauthorized'')"
    using g [THEN conjunct1, of "req None None [] []"] n by simp
  ultimately show ?thesis by simp
qed

lemma tokenUser_sample:
  "tokenUser (req (Some ''token-a'') i b q) sampleState = Some ''64b7f1c2aaaaaaaaaaaa0001''"
  "tokenUser (req (Some ''token-b'') i b q) sampleState = Some ''64b7f1c2bbbbbbbbbbbb0002''"
  "tokenUser (req None i b q) sampleState = None"
  by (simp_all add: tokenUser_def req_def sampleState_def redis_get_def)

text \<open>
  C2 (as amended). \<open>getDisconnect\<close> is not idempotent. With a token that stands for a
  user it answers 204 and deletes the cache entry; with a token that is absent from the
  cache, or was revoked before, it answers 401 and changes nothing, so the second of two
  revocations of one token is answered 401. Only the deletion in the cache
  (\<open>RedisClient.del\<close>) is idempotent.
\<close>

theorem getDisconnect_revoke:
  "(tokenUser r s = None \<longrightarrow> getDisconnect r s = (Reply 401 (Error ''Unauthorized''), s))
   \<and> (\<forall>t uid. headers r ''x-token'' = Some t \<and> tokenUser r s = Some uid \<longrightarrow>
          getDisconnect r s = (Reply 204 Empty, redis_del (''auth_'' @ t) s)
        \<and> cache (redis_del (''auth_'' @ t) s) (''auth_'' @ t) = None
        \<and> getDisconnect r (redis_del (''auth_'' @ t) s)
            = (Reply 401 (Error ''Unauthorized''), redis_del (''auth_'' @ t) s))
   \<and> redis_del k (redis_del k s) = redis_del k s"
  by (auto simp: tokenUser_def getDisconnect_def redis_del_def redis_get_def Let_def replies
           split: option.splits if_splits)

theorem getDisconnect_revoke_witness:
  "fst (getDisconnect (req (Some ''token-a'') None [] []) sampleState) = Reply 204 Empty
   \<and> getDisconnect (req (Some ''token-a'') None [] [])
        (redis_del ''auth_token-a'' sampleState)
      = (Reply 401 (Error ''Unauthorized''), redis_del ''auth_token-a'' sampleState)
   \<and> getDisconnect (req None None [] []) sampleState
      = (Reply 401 (Error ''Unauthorized''), sampleState)"
proof -
  have h: "headers (req (Some ''token-a'') None [] []) ''x-token'' = Some ''token-a''
           \<and> tokenUser (req (Some ''token-a'') None [] []) sampleState
               = Some ''64b7f1c2aaaaaaaaaaaa0001''"
    by (simp add: tokenUser_sample) (simp add: req_def)
  show ?thesis
    using getDisconnect_revoke [of "req (Some ''token-a'') None [] []" sampleState,
            THEN conjunct2, THEN conjunct1, rule_format, OF h]
          getDisconnect_revoke [of "req None None [] []" sampleState, THEN conjunct1]
    by (simp add: tokenUser_sample)
qed

text \<open>
  C2 as stated fails: Alice's token is revoked with 204, and revoking it once more is
  answered 401 Unauthorized.
\<close>

theorem getDisconnect_twice_counterexample:
  "fst (getDisconnect (req (Some ''token-a'') None [] []) sampleState) = Reply 204 Empty
   \<and> fst (getDisconnect (req (Some ''token-a'') None [] [])
            (snd (getDisconnect (req (Some ''token-a'') None [] []) sampleState)))
      = Reply 401 (Error ''Unauthorized'')"
  by (simp add: getDisconnect_def req_def sampleState_def redis_get_def redis_del_def replies)

section \<open>File hierarchy manager\<close>

text \<open>
  C7. For an authenticated request \<open>postUpload\<close> checks, in this order: a missing (falsy)
  name gives 400 \<open>Missing name\<close>; a type that is not one of \<open>folder\<close>, \<open>file\<close>,
  \<open>image\<close> gives 400 \<open>Missing type\<close>; missing (falsy) data with type \<open>file\<close> or
  \<open>image\<close> gives 400 \<open>Missing data\<close>. So type \<open>file\<close> without data, and type
  \<open>bogus\<close>, are answered 400 whatever the name. In each case the state is the one
  before the call: no document is stored and no file is written.
\<close>

theorem postUpload_validation:
  assumes "tokenUser r s = Some uid"
  shows "(\<not> truthy (body r ''name'') \<longrightarrow>
            postUpload e uuid nid r s = (Reply 400 (Error ''Missing name''), s))
       \<and> (truthy (body r ''name'')
            \<and> body r ''type'' \<notin> {JStr ''folder'', JStr ''file'', JStr ''image''} \<longrightarrow>
            postUpload e uuid nid r s = (Reply 400 (Error ''Missing type''), s))
       \<and> (truthy (body r ''name'')
            \<and> body r ''type'' \<in> {JStr ''file'', JStr ''image''}
            \<and> \<not> truthy (body r ''data'') \<longrightarrow>
            postUpload e uuid nid r s = (Reply 400 (Error ''Missing data''), s))
       \<and> (body r ''type'' = JStr ''file'' \<and> \<not> truthy (body r ''data'') \<longrightarrow>
            (\<exists>msg. postUpload e uuid nid r s = (Reply 400 (Error msg), s)))
       \<and> (body r ''type'' = JStr ''bogus'' \<longrightarrow>
            (\<exists>msg. postUpload e uuid nid r s = (Reply 400 (Error msg), s)))"
  using assms by (auto simp: postUpload_def Let_def replies)

theorem postUpload_validation_witness:
  "postUpload sampleEnv ''u-2'' (Oid ''64b7f1c2cccccccccccc0003'')
      (req (Some ''token-a'') None [(''type'', JStr ''file''), (''data'', JStr ''aGk='')] [])
      sampleState
     = (Reply 400 (Error ''Missing name''), sampleState)
   \<and> postUpload sampleEnv ''u-2'' (Oid ''64b7f1c2cccccccccccc0003'')
      (req (Some ''token-a'') None [(''name'', JStr ''b''), (''type'', JStr ''bogus'')] [])
      sampleState
     = (Reply 400 (Error ''Missing type''), sampleState)
   \<and> postUpload sampleEnv ''u-2'' (Oid ''64b7f1c2cccccccccccc0003'')
      (req (Some ''token-a'') None [(''name'', JStr ''b''), (''type'', JStr ''file'')] [])
      sampleState
     = (Reply 400 (Error ''Missing data''), sampleState)"
proof -
  have b: "body (req t i bs q) k = (case map_of bs k of None \<Rightarrow> JUndefined | Some v \<Rightarrow> v)"
    for t i bs q k
    by (simp add: req_def)
  note v = postUpload_validation [OF tokenUser_sample(1), of _ _ _ sampleEnv "''u-2''"
             "Oid ''64b7f1c2cccccccccccc0003''"]
  show ?thesis
    using v [of None "[(''type'', JStr ''file''), (''data'', JStr ''aGk='')]" "[]"]
          v [of None "[(''name'', JStr ''b''), (''type'', JStr ''bogus'')]" "[]"]
          v [of None "[(''name'', JStr ''b''), (''type'', JStr ''file'')]" "[]"]
    by (simp add: b)
qed

lemma find_Some_D: "find P xs = Some x \<Longrightarrow> x \<in> set xs \<and> P x"
  by (auto simp: find_Some_iff)

lemma parentCheck_None:
  "parentCheck e s p = None \<longleftrightarrow>
     (p = JNum 0 \<or> (\<exists>pid f. ObjectId e p = Some pid
                        \<and> find (\<lambda>d. file_id d = pid) (files s) = Some f
                        \<and> type f = JStr ''folder''))"
  by (auto simp: parentCheck_def split: option.splits)

lemma parentCheck_Some:
  "parentCheck e s p = Some r \<Longrightarrow>
     r = Rejected \<or> r = Reply 400 (Error ''Parent not found'')
     \<or> r = Reply 400 (Error ''Parent is not a folder'')"
  by (auto simp: parentCheck_def replies split: option.splits if_splits)

lemma persist_201:
  assumes "persist e uuid nid uid n t ip p dt s = (Reply 201 b, s')"
  shows "\<exists>d owner. b = Created d \<and> ObjectId e (JStr uid) = Some owner
           \<and> file_id d = nid \<and> userId d = owner \<and> name d = n \<and> type d = t
           \<and> isPublic d = ip
           \<and> parentId d = (if p = JNum 0 then Root else Ref (the (ObjectId e p)))
           \<and> (p \<noteq> JNum 0 \<longrightarrow> ObjectId e p \<noteq> None)
           \<and> files s' = files s @ [d] \<and> nid \<notin> file_id ` set (files s)
           \<and> (if t = JStr ''folder'' then localPath d = None \<and> disk s' = disk s
               else (\<exists>dd. dt = JStr dd
                       \<and> localPath d = Some (pathJoin e (folderPath e) uuid)
                       \<and> disk s' = (disk s)(pathJoin e (folderPath e) uuid
                                             \<mapsto> base64 e dd)))"
proof (cases "t = JStr ''folder''")
  case True
  with assms show ?thesis
    by (auto simp: persist_def insertOne_def Let_def split: option.splits if_splits)
next
  case False
  with assms show ?thesis
    by (auto simp: persist_def insertOne_def Let_def
             split: option.splits if_splits jsval.splits)
qed

lemma persist_ok:
  assumes "ObjectId e (JStr uid) = Some owner"
      and "p = JNum 0 \<or> ObjectId e p \<noteq> None"
      and "nid \<notin> file_id ` set (files s)"
      and "t = JStr ''folder'' \<or> (\<exists>dd. dt = JStr dd)"
  shows "\<exists>b s'. persist e uuid nid uid n t ip p dt s = (Reply 201 b, s')"
  using assms
  by (auto simp: persist_def insertOne_def Let_def split: option.splits jsval.splits)

lemma postUpload_201:
  assumes "postUpload e uuid nid r s = (Reply 201 b, s')"
      and "p = (case body r ''parentId'' of JUndefined \<Rightarrow> JNum 0 | v \<Rightarrow> v)"
  shows "\<exists>uid. tokenUser r s = Some uid \<and> parentCheck e s p = None
           \<and> persist e uuid nid uid (body r ''name'') (body r ''type'')
                (case body r ''isPublic'' of JUndefined \<Rightarrow> JBool False | v \<Rightarrow> v)
                p (body r ''data'') s = (Reply 201 b, s')"
  using assms(1) unfolding postUpload_def Let_def assms(2) [symmetric]
  by (auto simp: replies split: option.splits if_splits dest: parentCheck_Some)

lemma sample_ids:
  "ObjectId sampleEnv (JStr ''64b7f1c2aaaaaaaaaaaa0001'') = Some aliceId"
  "ObjectId sampleEnv (JStr ''64b7f1c2bbbbbbbbbbbb0002'') = Some bobId"
  "ObjectId sampleEnv (JStr ''64b7f1c2cccccccccccc0001'') = Some (file_id documents)"
  "ObjectId sampleEnv (JStr ''64b7f1c2cccccccccccc0002'') = Some (file_id aTxt)"
  "ObjectId sampleEnv (JStr ''64b7f1c2cccccccccccc0009'')
     = Some (Oid ''64b7f1c2cccccccccccc0009'')"
  "ObjectId sampleEnv (JStr ''invalid-id'') = None"
  "ObjectId sampleEnv (JStr ''Documents'') = None"
  by (simp_all add: sampleEnv_def sampleObjectId_def isHex_def lower_def aliceId_def
        bobId_def documents_def aTxt_def)

lemma sample_files:
  "find (\<lambda>x. file_id x = file_id documents) (files sampleState) = Some documents"
  "find (\<lambda>x. file_id x = file_id aTxt) (files sampleState) = Some aTxt"
  "find (\<lambda>x. file_id x = Oid ''64b7f1c2cccccccccccc0009'') (files sampleState) = None"
  by (simp_all add: sampleState_def documents_def aTxt_def)

lemma sample_body:
  "body (req t i bs q) k = (case map_of bs k of None \<Rightarrow> JUndefined | Some v \<Rightarrow> v)"
  by (simp add: req_def)

text \<open>
  The parent check, case by case. Let \<open>p\<close> be the request's \<open>parentId\<close> (the root \<open>0\<close>
  when absent). Whenever \<open>postUpload\<close> answers 201, the created document is stored, and
  either \<open>p\<close> is the root and the document's \<open>parentId\<close> is the root, or \<open>p\<close> is the
  identifier of a stored document of type \<open>folder\<close> and the new document records that
  identifier as its \<open>parentId\<close>. For an authenticated request with a name, a type and
  data that pass validation and a \<open>p\<close> that is not the root: an identifier no stored
  document has gives 400 \<open>Parent not found\<close>; the identifier of a stored document that
  is not a folder gives 400 \<open>Parent is not a folder\<close>; and a \<open>p\<close> the driver does not
  take as an identifier leaves the handler by the driver's exception. None of the three
  changes the state.
\<close>

lemma postUpload_parent_cases:
  assumes "p = (case body r ''parentId'' of JUndefined \<Rightarrow> JNum 0 | v \<Rightarrow> v)"
  shows "(\<forall>b s'. postUpload e uuid nid r s = (Reply 201 b, s') \<longrightarrow>
            (\<exists>d. b = Created d \<and> d \<in> set (files s')
               \<and> (if p = JNum 0 then parentId d = Root
                   else (\<exists>pid f. ObjectId e p = Some pid \<and> parentId d = Ref pid
                           \<and> find (\<lambda>x. file_id x = pid) (files s) = Some f
                           \<and> f \<in> set (files s') \<and> file_id f = pid
                           \<and> type f = JStr ''folder''))))
       \<and> (\<forall>uid pid. tokenUser r s = Some uid \<and> truthy (body r ''name'')
            \<and> body r ''type'' \<in> {JStr ''folder'', JStr ''file'', JStr ''image''}
            \<and> (truthy (body r ''data'') \<or> body r ''type'' = JStr ''folder'')
            \<and> p \<noteq> JNum 0 \<and> ObjectId e p = Some pid \<longrightarrow>
              (find (\<lambda>x. file_id x = pid) (files s) = None \<longrightarrow>
                 postUpload e uuid nid r s = (Reply 400 (Error ''Parent not found''), s))
            \<and> (\<forall>f. find (\<lambda>x. file_id x = pid) (files s) = Some f
                    \<and> type f \<noteq> JStr ''folder'' \<longrightarrow>
                 postUpload e uuid nid r s
                   = (Reply 400 (Error ''Parent is not a folder''), s)))
       \<and> (\<forall>uid. tokenUser r s = Some uid \<and> truthy (body r ''name'')
            \<and> body r ''type'' \<in> {JStr ''folder'', JStr ''file'', JStr ''image''}
            \<and> (truthy (body r ''data'') \<or> body r ''type'' = JStr ''folder'')
            \<and> p \<noteq> JNum 0 \<and> ObjectId e p = None \<longrightarrow>
              postUpload e uuid nid r s = (Rejected, s))"
proof (intro conjI; intro allI impI)
  fix b s'
  assume a: "postUpload e uuid nid r s = (Reply 201 b, s')"
  from postUpload_201 [OF a assms] obtain uid where
    pc: "parentCheck e s p = None" and
    ps: "persist e uuid nid uid (body r ''name'') (body r ''type'')
                (case body r ''isPublic'' of JUndefined \<Rightarrow> JBool False | v \<Rightarrow> v)
                p (body r ''data'') s = (Reply 201 b, s')"
    by blast
  from persist_201 [OF ps] obtain d where
    d: "b = Created d" "files s' = files s @ [d]"
       "parentId d = (if p = JNum 0 then Root else Ref (the (ObjectId e p)))"
    by blast
  show "\<exists>d. b = Created d \<and> d \<in> set (files s')
               \<and> (if p = JNum 0 then parentId d = Root
                   else (\<exists>pid f. ObjectId e p = Some pid \<and> parentId d = Ref pid
                           \<and> find (\<lambda>x. file_id x = pid) (files s) = Some f
                           \<and> f \<in> set (files s') \<and> file_id f = pid
                           \<and> type f = JStr ''folder''))"
  proof (cases "p = JNum 0")
    case True
    with d show ?thesis by simp
  next
    case False
    with pc obtain pid f where
      f: "ObjectId e p = Some pid" "find (\<lambda>x. file_id x = pid) (files s) = Some f"
         "type f = JStr ''folder''"
      by (auto simp: parentCheck_None)
    from find_Some_D [OF f(2)] have "f \<in> set (files s)" "file_id f = pid" by simp_all
    with d f False show ?thesis by simp
  qed
next
  fix uid pid
  assume a: "tokenUser r s = Some uid \<and> truthy (body r ''name'')
            \<and> body r ''type'' \<in> {JStr ''folder'', JStr ''file'', JStr ''image''}
            \<and> (truthy (body r ''data'') \<or> body r ''type'' = JStr ''folder'')
            \<and> p \<noteq> JNum 0 \<and> ObjectId e p = Some pid"
  show "(find (\<lambda>x. file_id x = pid) (files s) = None \<longrightarrow>
                 postUpload e uuid nid r s = (Reply 400 (Error ''Parent not found''), s))
            \<and> (\<forall>f. find (\<lambda>x. file_id x = pid) (files s) = Some f
                    \<and> type f \<noteq> JStr ''folder'' \<longrightarrow>
                 postUpload e uuid nid r s
                   = (Reply 400 (Error ''Parent is not a folder''), s))"
    using a unfolding postUpload_def Let_def assms [symmetric]
    by (auto simp: replies parentCheck_def)
next
  fix uid
  assume a: "tokenUser r s = Some uid \<and> truthy (body r ''name'')
            \<and> body r ''type'' \<in> {JStr ''folder'', JStr ''file'', JStr ''image''}
            \<and> (truthy (body r ''data'') \<or> body r ''type'' = JStr ''folder'')
            \<and> p \<noteq> JNum 0 \<and> ObjectId e p = None"
  show "postUpload e uuid nid r s = (Rejected, s)"
    using a unfolding postUpload_def Let_def assms [symmetric]
    by (auto simp: replies parentCheck_def)
qed

lemma postUpload_parent_sample:
  "(\<exists>d. fst (postUpload sampleEnv ''u-2'' (Oid ''64b7f1c2cccccccccccc0003'')
              (req (Some ''token-b'') None
                 [(''name'', JStr ''b.png''), (''type'', JStr ''image''),
                  (''data'', JStr ''aGk=''), (''parentId'', JStr ''64b7f1c2cccccccccccc0001'')]
                 []) sampleState) = Reply 201 (Created d)
        \<and> parentId d = Ref (file_id documents) \<and> type documents = JStr ''folder'')
   \<and> postUpload sampleEnv ''u-2'' (Oid ''64b7f1c2cccccccccccc0003'')
        (req (Some ''token-b'') None
           [(''name'', JStr ''b.png''), (''type'', JStr ''image''),
            (''data'', JStr ''aGk=''), (''parentId'', JStr ''64b7f1c2cccccccccccc0009'')]
           []) sampleState
      = (Reply 400 (Error ''Parent not found''), sampleState)
   \<and> postUpload sampleEnv ''u-2'' (Oid ''64b7f1c2cccccccccccc0003'')
        (req (Some ''token-b'') None
           [(''name'', JStr ''b.png''), (''type'', JStr ''image''),
            (''data'', JStr ''aGk=''), (''parentId'', JStr ''64b7f1c2cccccccccccc0002'')]
           []) sampleState
      = (Reply 400 (Error ''Parent is not a folder''), sampleState)
   \<and> postUpload sampleEnv ''u-2'' (Oid ''64b7f1c2cccccccccccc0003'')
        (req (Some ''token-b'') None
           [(''name'', JStr ''b.png''), (''type'', JStr ''image''),
            (''data'', JStr ''aGk=''), (''parentId'', JStr ''Documents'')]
           []) sampleState
      = (Rejected, sampleState)"
proof -
  let ?up = "\<lambda>pid. postUpload sampleEnv ''u-2'' (Oid ''64b7f1c2cccccccccccc0003'')
              (req (Some ''token-b'') None
                 [(''name'', JStr ''b.png''), (''type'', JStr ''image''),
                  (''data'', JStr ''aGk=''), (''parentId'', JStr pid)]
                 []) sampleState"
  have p: "JStr pid = (case body (req (Some ''token-b'') None
                 [(''name'', JStr ''b.png''), (''type'', JStr ''image''),
                  (''data'', JStr ''aGk=''), (''parentId'', JStr pid)] []) ''parentId''
               of JUndefined \<Rightarrow> JNum 0 | v \<Rightarrow> v)" for pid
    by (simp add: sample_body)
  note t = postUpload_parent_cases [where e = sampleEnv and uuid = "''u-2''"
             and nid = "Oid ''64b7f1c2cccccccccccc0003''" and s = sampleState]
  have ok: "fst (?up ''64b7f1c2cccccccccccc0001'')
      = Reply 201 (Created \<lparr>file_id = Oid ''64b7f1c2cccccccccccc0003'', userId = bobId,
           name = JStr ''b.png'', type = JStr ''image'', isPublic = JBool False,
           parentId = Ref (file_id documents),
           localPath = Some ''/tmp/files_manager/u-2''\<rparr>)"
    by (simp add: postUpload_def tokenUser_sample sample_body parentCheck_def sample_ids
          sample_files persist_def insertOne_def Let_def folderPath_def)
       (simp add: documents_def aTxt_def sampleEnv_def sampleState_def)
  have 1: "\<exists>d. fst (?up ''64b7f1c2cccccccccccc0001'') = Reply 201 (Created d)
        \<and> parentId d = Ref (file_id documents) \<and> type documents = JStr ''folder''"
    using t [OF p [of "''64b7f1c2cccccccccccc0001''"], THEN conjunct1, rule_format,
             of _ "snd (?up ''64b7f1c2cccccccccccc0001'')"] ok
    by (auto simp: prod_eq_iff sample_ids sample_files)
  have 2: "?up ''64b7f1c2cccccccccccc0009''
             = (Reply 400 (Error ''Parent not found''), sampleState)"
    using t [OF p [of "''64b7f1c2cccccccccccc0009''"], THEN conjunct2, THEN conjunct1, rule_format,
             of "''64b7f1c2bbbbbbbbbbbb0002''" "Oid ''64b7f1c2cccccccccccc0009''",
             THEN conjunct1]
    by (simp add: tokenUser_sample sample_body sample_ids sample_files)
  have 3: "?up ''64b7f1c2cccccccccccc0002''
             = (Reply 400 (Error ''Parent is not a folder''), sampleState)"
    using t [OF p [of "''64b7f1c2cccccccccccc0002''"], THEN conjunct2, THEN conjunct1, rule_format,
             of "''64b7f1c2bbbbbbbbbbbb0002''" "file_id aTxt",
             THEN conjunct2, rule_format, of aTxt]
    by (simp add: tokenUser_sample sample_body sample_ids sample_files) (simp add: aTxt_def)
  have 4: "?up ''Documents'' = (Rejected, sampleState)"
    using t [OF p [of "''Documents''"], THEN conjunct2, THEN conjunct2, rule_format,
             of "''64b7f1c2bbbbbbbbbbbb0002''"]
    by (simp add: tokenUser_sample sample_body sample_ids)
  from 1 2 3 4 show ?thesis by blast
qed

text \<open>
  C3, at the input where the code departs from it: Bob is authenticated and sends a valid
  name, type and data with \<open>parentId = 'invalid-id'\<close>, which names none of the stored
  documents. \<open>postUpload\<close> sends no 400 \<open>Parent not found\<close>: \<open>ObjectId('invalid-id')\<close>
  throws before the lookup and the exception leaves the handler.
\<close>

theorem postUpload_invalid_parent:
  "tokenUser (req (Some ''token-b'') None
       [(''name'', JStr ''b.png''), (''type'', JStr ''image''),
        (''data'', JStr ''aGk=''), (''parentId'', JStr ''invalid-id'')] []) sampleState
     = Some ''64b7f1c2bbbbbbbbbbbb0002''
   \<and> files sampleState = [documents, aTxt]
   \<and> toString (file_id documents) \<noteq> ''invalid-id''
   \<and> toString (file_id aTxt) \<noteq> ''invalid-id''
   \<and> postUpload sampleEnv ''u-2'' (Oid ''64b7f1c2cccccccccccc0003'')
        (req (Some ''token-b'') None
           [(''name'', JStr ''b.png''), (''type'', JStr ''image''),
            (''data'', JStr ''aGk=''), (''parentId'', JStr ''invalid-id'')] []) sampleState
      = (Rejected, sampleState)"
proof -
  have "postUpload sampleEnv ''u-2'' (Oid ''64b7f1c2cccccccccccc0003'')
        (req (Some ''token-b'') None
           [(''name'', JStr ''b.png''), (''type'', JStr ''image''),
            (''data'', JStr ''aGk=''), (''parentId'', JStr ''invalid-id'')] []) sampleState
      = (Rejected, sampleState)"
    by (simp add: postUpload_def tokenUser_sample sample_body parentCheck_def sample_ids)
  moreover
  have "files sampleState = [documents, aTxt]"
       "toString (file_id documents) \<noteq> ''invalid-id''"
       "toString (file_id aTxt) \<noteq> ''invalid-id''"
    by (simp_all add: sampleState_def documents_def aTxt_def)
  ultimately show ?thesis
    by (simp add: tokenUser_sample)
qed

theorem postUpload_invalid_parent_witness:
  "fst (postUpload sampleEnv ''u-2'' (Oid ''64b7f1c2cccccccccccc0003'')
        (req (Some ''token-b'') None
           [(''name'', JStr ''b.png''), (''type'', JStr ''image''),
            (''data'', JStr ''aGk=''), (''parentId'', JStr ''invalid-id'')] []) sampleState)
     \<noteq> Reply 400 (Error ''Parent not found'')"
  using postUpload_invalid_parent by simp

text \<open>
  C10. \<open>postUpload\<close> never looks at the owner of the parent. Let user \<open>a\<close> be
  authenticated and send a name, a type and (for a file or an image) base64 data that
  pass validation, with the identifier of a stored folder \<open>f\<close> as \<open>parentId\<close>, where
  \<open>f\<close> belongs to another user. Provided the driver gives the new document an unused
  identifier, the answer is 201 and the new document, owned by \<open>a\<close>, is appended to the
  collection with \<open>f\<close>'s identifier as \<open>parentId\<close>.
\<close>

theorem postUpload_foreign_parent:
  assumes "tokenUser r s = Some uid" and "ObjectId e (JStr uid) = Some a"
      and "truthy (body r ''name'')"
      and "body r ''type'' = JStr ''folder''
           \<or> (body r ''type'' \<in> {JStr ''file'', JStr ''image''}
               \<and> (\<exists>dd. body r ''data'' = JStr dd \<and> dd \<noteq> []))"
      and "body r ''parentId'' = p" and "p \<noteq> JUndefined" and "p \<noteq> JNum 0"
      and "ObjectId e p = Some pid"
      and "find (\<lambda>x. file_id x = pid) (files s) = Some f"
      and "type f = JStr ''folder''" and "userId f \<noteq> a"
      and "nid \<notin> file_id ` set (files s)"
  shows "\<exists>d s'. postUpload e uuid nid r s = (Reply 201 (Created d), s')
           \<and> files s' = files s @ [d] \<and> file_id d = nid
           \<and> userId d = a \<and> parentId d = Ref pid \<and> userId d \<noteq> userId f"
proof -
  let ?p = "case body r ''parentId'' of JUndefined \<Rightarrow> JNum 0 | v \<Rightarrow> v"
  let ?ip = "case body r ''isPublic'' of JUndefined \<Rightarrow> JBool False | v \<Rightarrow> v"
  have p: "?p = p" using assms(5,6) by (cases p) auto
  have pc: "parentCheck e s p = None"
    using assms(7-10) by (auto simp: parentCheck_None)
  have up: "postUpload e uuid nid r s
              = persist e uuid nid uid (body r ''name'') (body r ''type'') ?ip p
                  (body r ''data'') s"
    using assms(1,3,4) pc unfolding postUpload_def Let_def p
    by auto
  obtain b s' where
    ps: "persist e uuid nid uid (body r ''name'') (body r ''type'') ?ip p
                  (body r ''data'') s = (Reply 201 b, s')"
    using persist_ok [OF assms(2), of p nid s "body r ''type''" "body r ''data''"]
          assms(4,8,12)
    by blast
  from persist_201 [OF ps] assms(2,7,8,11) up ps show ?thesis
    by auto
qed




theorem postUpload_foreign_parent_witness:
  "\<exists>d s'. postUpload sampleEnv ''u-2'' (Oid ''64b7f1c2cccccccccccc0003'')
              (req (Some ''token-b'') None
                 [(''name'', JStr ''b.png''), (''type'', JStr ''image''),
                  (''data'', JStr ''aGk=''), (''parentId'', JStr ''64b7f1c2cccccccccccc0001'')]
                 []) sampleState = (Reply 201 (Created d), s')
        \<and> files s' = files sampleState @ [d]
        \<and> userId d = bobId \<and> parentId d = Ref (file_id documents)
        \<and> userId documents = aliceId"
proof -
  have n: "Oid ''64b7f1c2cccccccccccc0003'' \<notin> file_id ` set (files sampleState)"
    by (simp add: sampleState_def documents_def aTxt_def)
  have o: "userId documents \<noteq> bobId" "type documents = JStr ''folder''"
          "userId documents = aliceId"
    by (simp_all add: documents_def aliceId_def bobId_def)
  show ?thesis
    using postUpload_foreign_parent [where p = "JStr ''64b7f1c2cccccccccccc0001''"
              and e = sampleEnv and uuid = "''u-2''" and s = sampleState
              and r = "req (Some ''token-b'') None
                 [(''name'', JStr ''b.png''), (''type'', JStr ''image''),
                  (''data'', JStr ''aGk=''), (''parentId'', JStr ''64b7f1c2cccccccccccc0001'')]
                 []",
            OF tokenUser_sample(2) sample_ids(2) _ _ _ _ _
               sample_ids(3) sample_files(1) o(2) o(1) n]
          o(3)
    by (simp add: sample_body) blast
qed

lemma postUpload_201_type:
  assumes "postUpload e uuid nid r s = (Reply 201 b, s')"
  shows "body r ''type'' \<in> {JStr ''folder'', JStr ''file'', JStr ''image''}"
  using assms unfolding postUpload_def Let_def
  by (auto simp: replies split: option.splits if_splits)

lemma map_updateOne:
  assumes "\<And>x. g (f x) = g x"
  shows "map g (updateOne P f xs) = map g xs"
  by (induction xs) (simp_all add: assms)

lemma persist_files:
  "files (snd (persist e uuid nid uid n t ip p dt s)) = files s
   \<or> (\<exists>d. files (snd (persist e uuid nid uid n t ip p dt s)) = files s @ [d])"
  by (auto simp: persist_def insertOne_def Let_def split: option.splits jsval.splits)

lemma postUpload_files:
  "files (snd (postUpload e uuid nid r s)) = files s
   \<or> (\<exists>d. files (snd (postUpload e uuid nid r s)) = files s @ [d])"
  unfolding postUpload_def Let_def
  by (simp add: persist_files split: option.splits)

lemma setPublic_files:
  "map (\<lambda>d. (file_id d, localPath d)) (files (snd (setPublic flag e r s)))
     = map (\<lambda>d. (file_id d, localPath d)) (files s)"
  by (auto simp: setPublic_def Let_def map_updateOne split: option.splits)

lemma getConnect_files: "files (snd (getConnect e uuid r s)) = files s"
proof (cases "\<exists>h. headers r ''authorization'' = Some h \<and> take 6 h = ''Basic ''")
  case True
  then obtain h where "headers r ''authorization'' = Some h" "take 6 h = ''Basic ''"
    by blast
  then show ?thesis
    by (simp add: getConnect_Basic Let_def split: option.splits)
next
  case False
  then have "headers r ''authorization'' = None
             \<or> (\<exists>h. headers r ''authorization'' = Some h \<and> take 6 h \<noteq> ''Basic '')"
    by (cases "headers r ''authorization''") auto
  then show ?thesis
    by (simp add: getConnect_no_Basic)
qed

lemma getDisconnect_files: "files (snd (getDisconnect r s)) = files s"
  by (simp add: getDisconnect_def redis_del_def Let_def split: jsval.splits)

lemma unchanged:
  "snd (getShow e r s) = s"
  "snd (getIndex e r s) = s"
  "snd (getFile e r s) = s"
  by (simp_all add: getShow_def getIndex_def getFile_def Let_def split: option.splits)

lemma handle_keeps:
  "\<exists>ys. map (\<lambda>d. (file_id d, localPath d)) (files (snd (handle e c s)))
          = map (\<lambda>d. (file_id d, localPath d)) (files s) @ ys"
proof (cases c)
  case (Call rt r uuid nid)
  show ?thesis
  proof (cases rt)
    case Upload
    with Call postUpload_files [of e uuid nid r s] show ?thesis by auto
  qed (simp_all add: Call unchanged getConnect_files getDisconnect_files setPublic_files
        putPublish_def putUnpublish_def)
qed

lemma run_keeps:
  "\<exists>ys. map (\<lambda>d. (file_id d, localPath d)) (files (run e cs s))
          = map (\<lambda>d. (file_id d, localPath d)) (files s) @ ys"
proof (induction cs arbitrary: s)
  case Nil
  show ?case by simp
next
  case (Cons c cs)
  from handle_keeps [of e c s] obtain ys where
    1: "map (\<lambda>d. (file_id d, localPath d)) (files (snd (handle e c s)))
          = map (\<lambda>d. (file_id d, localPath d)) (files s) @ ys" ..
  from Cons.IH [of "snd (handle e c s)"] obtain zs where
    2: "map (\<lambda>d. (file_id d, localPath d)) (files (run e cs (snd (handle e c s))))
          = map (\<lambda>d. (file_id d, localPath d)) (files (snd (handle e c s))) @ zs" ..
  from 1 2 show ?case by simp
qed

text \<open>
  C9. A document \<open>postUpload\<close> creates is appended to the collection; its type is one of
  the three; a folder has no \<open>localPath\<close>; a file or an image has the path
  \<open>path.join(folderPath, uuid)\<close> as \<open>localPath\<close>, and the disk holds the decoded data at
  that path when the handler returns. After any sequence of calls to the handlers, every
  document of the collection is still at its place with the identifier and the
  \<open>localPath\<close> (present or absent) it had.
\<close>

theorem localPath_invariant:
  "(\<forall>d s'. postUpload e uuid nid r s = (Reply 201 (Created d), s') \<longrightarrow>
      files s' = files s @ [d]
      \<and> type d \<in> {JStr ''folder'', JStr ''file'', JStr ''image''}
      \<and> (type d = JStr ''folder'' \<longrightarrow> localPath d = None)
      \<and> (type d \<in> {JStr ''file'', JStr ''image''} \<longrightarrow>
           (\<exists>dd. body r ''data'' = JStr dd
              \<and> localPath d = Some (pathJoin e (folderPath e) uuid)
              \<and> disk s' (pathJoin e (folderPath e) uuid) = Some (base64 e dd))))
   \<and> (\<forall>cs i. i < length (files s) \<longrightarrow>
        i < length (files (run e cs s))
        \<and> file_id (files (run e cs s) ! i) = file_id (files s ! i)
        \<and> localPath (files (run e cs s) ! i) = localPath (files s ! i))"
proof (rule conjI; intro allI impI)
  fix d s'
  assume a: "postUpload e uuid nid r s = (Reply 201 (Created d), s')"
  from postUpload_201 [OF a refl] obtain uid where
    ps: "persist e uuid nid uid (body r ''name'') (body r ''type'')
           (case body r ''isPublic'' of JUndefined \<Rightarrow> JBool False | v \<Rightarrow> v)
           (case body r ''parentId'' of JUndefined \<Rightarrow> JNum 0 | v \<Rightarrow> v)
           (body r ''data'') s = (Reply 201 (Created d), s')"
    by blast
  from persist_201 [OF ps] postUpload_201_type [OF a]
  show "files s' = files s @ [d]
      \<and> type d \<in> {JStr ''folder'', JStr ''file'', JStr ''image''}
      \<and> (type d = JStr ''folder'' \<longrightarrow> localPath d = None)
      \<and> (type d \<in> {JStr ''file'', JStr ''image''} \<longrightarrow>
           (\<exists>dd. body r ''data'' = JStr dd
              \<and> localPath d = Some (pathJoin e (folderPath e) uuid)
              \<and> disk s' (pathJoin e (folderPath e) uuid) = Some (base64 e dd)))"
    by (auto split: if_splits)
next
  fix cs i
  assume i: "i < length (files s)"
  let ?k = "\<lambda>d. (file_id d, localPath d)"
  from run_keeps [of e cs s] obtain ys where
    ys: "map ?k (files (run e cs s)) = map ?k (files s) @ ys" ..
  then have "length (files (run e cs s)) = length (files s) + length ys"
    by (metis length_append length_map)
  with i have l: "i < length (files (run e cs s))" by simp
  have "?k (files (run e cs s) ! i) = map ?k (files (run e cs s)) ! i"
    using l by simp
  also have "\<dots> = map ?k (files s) ! i"
    using i by (simp add: ys nth_append)
  also have "\<dots> = ?k (files s ! i)"
    using i by simp
  finally show "i < length (files (run e cs s))
        \<and> file_id (files (run e cs s) ! i) = file_id (files s ! i)
        \<and> localPath (files (run e cs s) ! i) = localPath (files s ! i)"
    using l by simp
qed


lemma sample_upload_image:
  "fst (postUpload sampleEnv ''u-2'' (Oid ''64b7f1c2cccccccccccc0003'')
          (req (Some ''token-b'') None
             [(''name'', JStr ''b.png''), (''type'', JStr ''image''),
              (''data'', JStr ''aGk=''), (''parentId'', JStr ''64b7f1c2cccccccccccc0001'')]
             []) sampleState)
     = Reply 201 (Created \<lparr>file_id = Oid ''64b7f1c2cccccccccccc0003'', userId = bobId,
           name = JStr ''b.png'', type = JStr ''image'', isPublic = JBool False,
           parentId = Ref (file_id documents),
           localPath = Some ''/tmp/files_manager/u-2''\<rparr>)"
  by (simp add: postUpload_def tokenUser_sample sample_body parentCheck_def sample_ids
        sample_files persist_def insertOne_def Let_def folderPath_def)
     (simp add: documents_def aTxt_def sampleEnv_def sampleState_def)

lemma sample_upload_folder:
  "fst (postUpload sampleEnv ''u-2'' (Oid ''64b7f1c2cccccccccccc0003'')
          (req (Some ''token-a'') None
             [(''name'', JStr ''Pictures''), (''type'', JStr ''folder'')] []) sampleState)
     = Reply 201 (Created \<lparr>file_id = Oid ''64b7f1c2cccccccccccc0003'', userId = aliceId,
           name = JStr ''Pictures'', type = JStr ''folder'', isPublic = JBool False,
           parentId = Root, localPath = None\<rparr>)"
  by (simp add: postUpload_def tokenUser_sample sample_body parentCheck_def sample_ids
        sample_files persist_def insertOne_def Let_def folderPath_def)
     (simp add: documents_def aTxt_def sampleEnv_def sampleState_def)

theorem localPath_invariant_witness:
  "(\<exists>d s'. postUpload sampleEnv ''u-2'' (Oid ''64b7f1c2cccccccccccc0003'')
          (req (Some ''token-b'') None
             [(''name'', JStr ''b.png''), (''type'', JStr ''image''),
              (''data'', JStr ''aGk=''), (''parentId'', JStr ''64b7f1c2cccccccccccc0001'')]
             []) sampleState = (Reply 201 (Created d), s')
      \<and> type d = JStr ''image''
      \<and> localPath d = Some ''/tmp/files_manager/u-2''
      \<and> disk s' ''/tmp/files_manager/u-2'' = Some ''hi'')
   \<and> (\<exists>d s'. postUpload sampleEnv ''u-2'' (Oid ''64b7f1c2cccccccccccc0003'')
          (req (Some ''token-a'') None
             [(''name'', JStr ''Pictures''), (''type'', JStr ''folder'')] []) sampleState
          = (Reply 201 (Created d), s')
      \<and> type d = JStr ''folder'' \<and> localPath d = None)
   \<and> localPath (files (run sampleEnv
         [Call Publish (req (Some ''token-a'') (Some ''64b7f1c2cccccccccccc0002'') [] [])
            ''u-3'' (Oid ''64b7f1c2cccccccccccc0004''),
          Call Upload (req (Some ''token-a'') None
             [(''name'', JStr ''Pictures''), (''type'', JStr ''folder'')] [])
            ''u-2'' (Oid ''64b7f1c2cccccccccccc0003''),
          Call Unpublish (req (Some ''token-a'') (Some ''64b7f1c2cccccccccccc0002'') [] [])
            ''u-4'' (Oid ''64b7f1c2cccccccccccc0005'')]
         sampleState) ! 1)
       = Some ''/tmp/files_manager/blob-1''"
proof -
  note t = localPath_invariant [where e = sampleEnv and s = sampleState]
  let ?img = "postUpload sampleEnv ''u-2'' (Oid ''64b7f1c2cccccccccccc0003'')
          (req (Some ''token-b'') None
             [(''name'', JStr ''b.png''), (''type'', JStr ''image''),
              (''data'', JStr ''aGk=''), (''parentId'', JStr ''64b7f1c2cccccccccccc0001'')]
             []) sampleState"
  let ?dir = "postUpload sampleEnv ''u-2'' (Oid ''64b7f1c2cccccccccccc0003'')
          (req (Some ''token-a'') None
             [(''name'', JStr ''Pictures''), (''type'', JStr ''folder'')] []) sampleState"
  have p: "pathJoin sampleEnv (folderPath sampleEnv) ''u-2'' = ''/tmp/files_manager/u-2''"
          "base64 sampleEnv ''aGk='' = ''hi''"
    by (simp_all add: sampleEnv_def folderPath_def sampleBase64_def)
  have 1: "\<exists>d s'. ?img = (Reply 201 (Created d), s') \<and> type d = JStr ''image''
      \<and> localPath d = Some ''/tmp/files_manager/u-2''
      \<and> disk s' ''/tmp/files_manager/u-2'' = Some ''hi''"
    using t [THEN conjunct1, rule_format, where uuid = "''u-2''"
               and nid = "Oid ''64b7f1c2cccccccccccc0003''"
               and r = "req (Some ''token-b'') None
                 [(''name'', JStr ''b.png''), (''type'', JStr ''image''),
                  (''data'', JStr ''aGk=''), (''parentId'', JStr ''64b7f1c2cccccccccccc0001'')]
                 []"
               and d = "\<lparr>file_id = Oid ''64b7f1c2cccccccccccc0003'', userId = bobId,
                 name = JStr ''b.png'', type = JStr ''image'', isPublic = JBool False,
                 parentId = Ref (file_id documents),
                 localPath = Some ''/tmp/files_manager/u-2''\<rparr>"
               and s' = "snd ?img"]
          sample_upload_image
    by (auto simp: prod_eq_iff p sample_body)
  have 2: "\<exists>d s'. ?dir = (Reply 201 (Created d), s') \<and> type d = JStr ''folder''
      \<and> localPath d = None"
    using t [THEN conjunct1, rule_format, where uuid = "''u-2''"
               and nid = "Oid ''64b7f1c2cccccccccccc0003''"
               and r = "req (Some ''token-a'') None
                 [(''name'', JStr ''Pictures''), (''type'', JStr ''folder'')] []"
               and d = "\<lparr>file_id = Oid ''64b7f1c2cccccccccccc0003'', userId = aliceId,
                 name = JStr ''Pictures'', type = JStr ''folder'', isPublic = JBool False,
                 parentId = Root, localPath = None\<rparr>"
               and s' = "snd ?dir"]
          sample_upload_folder
    by (auto simp: prod_eq_iff)
  have 3: "localPath (files (run sampleEnv
         [Call Publish (req (Some ''token-a'') (Some ''64b7f1c2cccccccccccc0002'') [] [])
            ''u-3'' (Oid ''64b7f1c2cccccccccccc0004''),
          Call Upload (req (Some ''token-a'') None
             [(''name'', JStr ''Pictures''), (''type'', JStr ''folder'')] [])
            ''u-2'' (Oid ''64b7f1c2cccccccccccc0003''),
          Call Unpublish (req (Some ''token-a'') (Some ''64b7f1c2cccccccccccc0002'') [] [])
            ''u-4'' (Oid ''64b7f1c2cccccccccccc0005'')]
         sampleState) ! 1)
       = Some ''/tmp/files_manager/blob-1''"
  proof -
    have l: "1 < length (files sampleState)"
      and v: "localPath (files sampleState ! 1) = Some ''/tmp/files_manager/blob-1''"
      by (simp_all add: sampleState_def aTxt_def)
    show ?thesis
      using t [THEN conjunct2, rule_format, OF l] by (simp only: v)
  qed
  from 1 2 3 show ?thesis by blast
qed

lemma find_updateOne:
  assumes "find Q xs = Some x" and "P x" and "\<And>y. P y \<Longrightarrow> Q y" and "\<And>y. Q (g y) = Q y"
  shows "find Q (updateOne P g xs) = Some (g x)"
  using assms(1)
proof (induction xs)
  case Nil
  then show ?case by simp
next
  case (Cons y ys)
  show ?case
  proof (cases "Q y")
    case True
    with Cons.prems have "y = x" by simp
    with assms(2,4) True show ?thesis by simp
  next
    case False
    with assms(3) have "\<not> P y" by blast
    with False Cons show ?thesis by (simp add: assms(4))
  qed
qed

lemma distinct_file_id:
  assumes "distinct (map file_id xs)" and "x \<in> set xs" and "y \<in> set xs"
      and "file_id x = file_id y"
  shows "x = y"
  using assms by (meson distinct_map inj_onD)

lemma setPublic_200:
  assumes "setPublic flag e r s = (Reply 200 b, s')"
  shows "\<exists>uid fid owner g. tokenUser r s = Some uid
           \<and> ObjectId e (ofOpt (params r ''id'')) = Some fid
           \<and> ObjectId e (JStr uid) = Some owner
           \<and> find (\<lambda>d. file_id d = fid \<and> userId d = owner) (files s) = Some g
           \<and> s' = s\<lparr>files := updateOne (\<lambda>d. file_id d = fid \<and> userId d = owner)
                                 (\<lambda>d. d\<lparr>isPublic := JBool flag\<rparr>) (files s)\<rparr>
           \<and> b = (case find (\<lambda>d. file_id d = fid) (files s') of
                    None \<Rightarrow> Null | Some u \<Rightarrow> Node u)"
  using assms
  by (auto simp: setPublic_def Let_def replies split: option.splits)

lemma setPublic_owner:
  assumes "setPublic flag e r s = (Reply 200 b, s')"
      and "ObjectId e (ofOpt (params r ''id'')) = Some fid"
      and "find (\<lambda>d. file_id d = fid) (files s) = Some f"
      and "distinct (map file_id (files s))"
  shows "b = Node (f\<lparr>isPublic := JBool flag\<rparr>)
         \<and> find (\<lambda>d. file_id d = fid) (files s') = Some (f\<lparr>isPublic := JBool flag\<rparr>)
         \<and> disk s' = disk s \<and> cache s' = cache s"
proof -
  from setPublic_200 [OF assms(1)] assms(2) obtain owner g where
    g: "find (\<lambda>d. file_id d = fid \<and> userId d = owner) (files s) = Some g"
    and s': "s' = s\<lparr>files := updateOne (\<lambda>d. file_id d = fid \<and> userId d = owner)
                                 (\<lambda>d. d\<lparr>isPublic := JBool flag\<rparr>) (files s)\<rparr>"
    and b: "b = (case find (\<lambda>d. file_id d = fid) (files s') of
                    None \<Rightarrow> Null | Some u \<Rightarrow> Node u)"
    by auto
  from find_Some_D [OF g] find_Some_D [OF assms(3)]
  have "g = f"
    using distinct_file_id [OF assms(4), of g f] by simp
  with find_Some_D [OF g] have o: "file_id f = fid \<and> userId f = owner" by simp
  have "find (\<lambda>d. file_id d = fid) (files s') = Some (f\<lparr>isPublic := JBool flag\<rparr>)"
    unfolding s' using find_updateOne [OF assms(3), of "\<lambda>d. file_id d = fid \<and> userId d = owner"
        "\<lambda>d. d\<lparr>isPublic := JBool flag\<rparr>"] o
    by simp
  with b s' show ?thesis by simp
qed

section \<open>Content retrieval\<close>

lemma getFile_owner_absent:
  assumes "ObjectId e (ofOpt (params r ''id'')) = Some fid"
      and "find (\<lambda>d. file_id d = fid) (files s) = Some f"
      and "type f \<noteq> JStr ''folder''"
      and "truthy (isPublic f)
           \<or> (\<exists>t. headers r ''x-token'' = Some t \<and> t \<noteq> []
                 \<and> redis_get s (''auth_'' @ t) = Some (toString (userId f))
                 \<and> toString (userId f) \<noteq> [])"
      and "filePath f (query r ''size'') = None
           \<or> (\<exists>p. filePath f (query r ''size'') = Some p \<and> disk s p = None)"
  shows "getFile e r s = (Reply 404 (Error ''Not found''), s)"
  using assms by (auto simp: getFile_def replies Let_def)

text \<open>
  C4 (as amended). Let \<open>f\<close> be the stored document the request's \<open>id\<close> names, not a
  folder, with \<open>isPublic = false\<close>. \<open>getFile\<close> answers 404 without a token, and 404 with
  any token whose cache entry is not the identifier of \<open>f\<close>'s owner (another user's
  token, or one with no entry). With a token whose cache entry is the owner's identifier
  it reads the path the request selects (\<open>localPath\<close>, or \<open>localPath_<size>\<close> for a
  \<open>size\<close> of 100, 250 or 500): it answers 200 with the bytes the disk holds there, and
  404 when the disk holds no file there. After \<open>putPublish\<close> on that identifier has
  answered 200, in a collection with unique identifiers, the published document is \<open>f\<close>
  with \<open>isPublic = true\<close>, and the request without a token is answered in the same way:
  200 with the same bytes, or 404 when the selected path holds no file.
\<close>

theorem getFile_visibility:
  assumes "ObjectId e (ofOpt (params r ''id'')) = Some fid"
      and "find (\<lambda>d. file_id d = fid) (files s) = Some f"
      and "type f \<noteq> JStr ''folder''" and "isPublic f = JBool False"
  shows "(headers r ''x-token'' = None \<longrightarrow>
            getFile e r s = (Reply 404 (Error ''Not found''), s))
       \<and> (\<forall>t. headers r ''x-token'' = Some t
              \<and> redis_get s (''auth_'' @ t) \<noteq> Some (toString (userId f)) \<longrightarrow>
            getFile e r s = (Reply 404 (Error ''Not found''), s))
       \<and> (\<forall>t p bytes. headers r ''x-token'' = Some t \<and> t \<noteq> []
              \<and> redis_get s (''auth_'' @ t) = Some (toString (userId f))
              \<and> toString (userId f) \<noteq> []
              \<and> filePath f (query r ''size'') = Some p \<and> disk s p = Some bytes \<longrightarrow>
            getFile e r s = (Reply 200 (Bytes (mimeType e f) bytes), s))
       \<and> (\<forall>rp b sp p bytes. putPublish e rp s = (Reply 200 b, sp)
              \<and> ObjectId e (ofOpt (params rp ''id'')) = Some fid
              \<and> distinct (map file_id (files s))
              \<and> headers r ''x-token'' = None
              \<and> filePath f (query r ''size'') = Some p \<and> disk s p = Some bytes \<longrightarrow>
            b = Node (f\<lparr>isPublic := JBool True\<rparr>)
            \<and> getFile e r sp = (Reply 200 (Bytes (mimeType e f) bytes), sp))
       \<and> (\<forall>t. headers r ''x-token'' = Some t \<and> t \<noteq> []
              \<and> redis_get s (''auth_'' @ t) = Some (toString (userId f))
              \<and> toString (userId f) \<noteq> []
              \<and> (filePath f (query r ''size'') = None
                  \<or> (\<exists>p. filePath f (query r ''size'') = Some p \<and> disk s p = None)) \<longrightarrow>
            getFile e r s = (Reply 404 (Error ''Not found''), s))
       \<and> (\<forall>rp b sp. putPublish e rp s = (Reply 200 b, sp)
              \<and> ObjectId e (ofOpt (params rp ''id'')) = Some fid
              \<and> distinct (map file_id (files s))
              \<and> headers r ''x-token'' = None
              \<and> (filePath f (query r ''size'') = None
                  \<or> (\<exists>p. filePath f (query r ''size'') = Some p \<and> disk s p = None)) \<longrightarrow>
            getFile e r sp = (Reply 404 (Error ''Not found''), sp))"
proof (intro conjI; intro allI impI)
  assume "headers r ''x-token'' = None"
  with assms show "getFile e r s = (Reply 404 (Error ''Not found''), s)"
    by (simp add: getFile_def replies)
next
  fix t
  assume "headers r ''x-token'' = Some t
          \<and> redis_get s (''auth_'' @ t) \<noteq> Some (toString (userId f))"
  with assms show "getFile e r s = (Reply 404 (Error ''Not found''), s)"
    by (simp add: getFile_def replies)
next
  fix t p bytes
  assume "headers r ''x-token'' = Some t \<and> t \<noteq> []
              \<and> redis_get s (''auth_'' @ t) = Some (toString (userId f))
              \<and> toString (userId f) \<noteq> []
              \<and> filePath f (query r ''size'') = Some p \<and> disk s p = Some bytes"
  with assms show "getFile e r s = (Reply 200 (Bytes (mimeType e f) bytes), s)"
    by (simp add: getFile_def replies)
next
  fix rp b sp p bytes
  assume a: "putPublish e rp s = (Reply 200 b, sp)
              \<and> ObjectId e (ofOpt (params rp ''id'')) = Some fid
              \<and> distinct (map file_id (files s))
              \<and> headers r ''x-token'' = None
              \<and> filePath f (query r ''size'') = Some p \<and> disk s p = Some bytes"
  then have "setPublic True e rp s = (Reply 200 b, sp)"
    by (simp add: putPublish_def)
  from setPublic_owner [OF this _ assms(2)] a
  have u: "b = Node (f\<lparr>isPublic := JBool True\<rparr>)"
    "find (\<lambda>d. file_id d = fid) (files sp) = Some (f\<lparr>isPublic := JBool True\<rparr>)"
    "disk sp = disk s"
    by simp_all
  have "filePath (f\<lparr>isPublic := JBool True\<rparr>) z = filePath f z"
       "mimeType e (f\<lparr>isPublic := JBool True\<rparr>) = mimeType e f" for z
    by (simp_all add: filePath_def mimeType_def split: option.splits)
  with u a assms(1,3)
  show "b = Node (f\<lparr>isPublic := JBool True\<rparr>)
            \<and> getFile e r sp = (Reply 200 (Bytes (mimeType e f) bytes), sp)"
    by (simp add: getFile_def)
next
  fix t
  assume a: "headers r ''x-token'' = Some t \<and> t \<noteq> []
              \<and> redis_get s (''auth_'' @ t) = Some (toString (userId f))
              \<and> toString (userId f) \<noteq> []
              \<and> (filePath f (query r ''size'') = None
                  \<or> (\<exists>p. filePath f (query r ''size'') = Some p \<and> disk s p = None))"
  then have "truthy (isPublic f)
           \<or> (\<exists>t. headers r ''x-token'' = Some t \<and> t \<noteq> []
                 \<and> redis_get s (''auth_'' @ t) = Some (toString (userId f))
                 \<and> toString (userId f) \<noteq> [])"
    by blast
  from getFile_owner_absent [OF assms(1,2,3) this] a
  show "getFile e r s = (Reply 404 (Error ''Not found''), s)"
    by blast
next
  fix rp b sp
  assume a: "putPublish e rp s = (Reply 200 b, sp)
              \<and> ObjectId e (ofOpt (params rp ''id'')) = Some fid
              \<and> distinct (map file_id (files s))
              \<and> headers r ''x-token'' = None
              \<and> (filePath f (query r ''size'') = None
                  \<or> (\<exists>p. filePath f (query r ''size'') = Some p \<and> disk s p = None))"
  then have "setPublic True e rp s = (Reply 200 b, sp)"
    by (simp add: putPublish_def)
  from setPublic_owner [OF this _ assms(2)] a
  have u: "find (\<lambda>d. file_id d = fid) (files sp) = Some (f\<lparr>isPublic := JBool True\<rparr>)"
    "disk sp = disk s"
    by simp_all
  have fp: "filePath (f\<lparr>isPublic := JBool True\<rparr>) z = filePath f z" for z
    by (simp add: filePath_def split: option.splits)
  have 1: "type (f\<lparr>isPublic := JBool True\<rparr>) \<noteq> JStr ''folder''"
    using assms(3) by simp
  have 2: "truthy (isPublic (f\<lparr>isPublic := JBool True\<rparr>))
           \<or> (\<exists>t. headers r ''x-token'' = Some t \<and> t \<noteq> []
                 \<and> redis_get sp (''auth_'' @ t)
                     = Some (toString (userId (f\<lparr>isPublic := JBool True\<rparr>)))
                 \<and> toString (userId (f\<lparr>isPublic := JBool True\<rparr>)) \<noteq> [])"
    by simp
  have 3: "filePath (f\<lparr>isPublic := JBool True\<rparr>) (query r ''size'') = None
           \<or> (\<exists>p. filePath (f\<lparr>isPublic := JBool True\<rparr>) (query r ''size'') = Some p
                 \<and> disk sp p = None)"
    using a by (simp add: fp u(2))
  show "getFile e r sp = (Reply 404 (Error ''Not found''), sp)"
    by (rule getFile_owner_absent [OF assms(1) u(1) 1 2 3])
qed

text \<open>
  C5 (as amended). Let \<open>f\<close> be the stored folder the request's \<open>id\<close> names. \<open>getFile\<close>
  checks the visibility before the type: it answers 400 \<open>A folder doesn't have content\<close>
  when the folder is public or the token's cache entry is the identifier of the folder's
  owner, and 404 \<open>Not found\<close> to every other requester of a private folder.
\<close>

theorem getFile_folder:
  assumes "ObjectId e (ofOpt (params r ''id'')) = Some fid"
      and "find (\<lambda>d. file_id d = fid) (files s) = Some f"
      and "type f = JStr ''folder''"
  shows "(truthy (isPublic f)
          \<or> (\<exists>t. headers r ''x-token'' = Some t \<and> t \<noteq> []
                \<and> redis_get s (''auth_'' @ t) = Some (toString (userId f))
                \<and> toString (userId f) \<noteq> []) \<longrightarrow>
            getFile e r s = (Reply 400 (Error noContent), s))
       \<and> (\<not> truthy (isPublic f)
          \<and> \<not> (\<exists>t. headers r ''x-token'' = Some t \<and> t \<noteq> []
                \<and> redis_get s (''auth_'' @ t) = Some (toString (userId f))
                \<and> toString (userId f) \<noteq> []) \<longrightarrow>
            getFile e r s = (Reply 404 (Error ''Not found''), s))"
  using assms
  by (auto simp: getFile_def replies Let_def split: option.splits)


lemma sample_req:
  "headers (req t i b q) ''x-token'' = t"
  "params (req t i b q) ''id'' = i"
  "query (req t i b q) = map_of q"
  by (simp_all add: req_def)

lemma sample_aTxt:
  "type aTxt \<noteq> JStr ''folder''" "isPublic aTxt = JBool False"
  "toString (userId aTxt) = ''64b7f1c2aaaaaaaaaaaa0001''"
  "filePath aTxt None = Some ''/tmp/files_manager/blob-1''"
  "mimeType sampleEnv aTxt = ''application/octet-stream''"
  by (simp_all add: aTxt_def aliceId_def filePath_def mimeType_def sampleEnv_def)

lemma sample_store:
  "redis_get sampleState ''auth_token-a'' = Some ''64b7f1c2aaaaaaaaaaaa0001''"
  "redis_get sampleState ''auth_token-b'' = Some ''64b7f1c2bbbbbbbbbbbb0002''"
  "disk sampleState ''/tmp/files_manager/blob-1'' = Some ''hi''"
  "distinct (map file_id (files sampleState))"
  by (simp_all add: sampleState_def redis_get_def documents_def aTxt_def)

lemma sample_publish:
  "fst (putPublish sampleEnv (req (Some ''token-a'') (Some ''64b7f1c2cccccccccccc0002'') [] [])
          sampleState)
     = Reply 200 (Node (aTxt\<lparr>isPublic := JBool True\<rparr>))"
  by (simp add: putPublish_def setPublic_def tokenUser_sample sample_req sample_ids Let_def)
     (simp add: sampleState_def documents_def aTxt_def aliceId_def)

theorem getFile_visibility_witness:
  "getFile sampleEnv (req None (Some ''64b7f1c2cccccccccccc0002'') [] []) sampleState
     = (Reply 404 (Error ''Not found''), sampleState)
   \<and> getFile sampleEnv (req (Some ''token-b'') (Some ''64b7f1c2cccccccccccc0002'') [] [])
       sampleState
     = (Reply 404 (Error ''Not found''), sampleState)
   \<and> getFile sampleEnv (req (Some ''token-a'') (Some ''64b7f1c2cccccccccccc0002'') [] [])
       sampleState
     = (Reply 200 (Bytes ''application/octet-stream'' ''hi''), sampleState)
   \<and> fst (getFile sampleEnv (req None (Some ''64b7f1c2cccccccccccc0002'') [] [])
       (snd (putPublish sampleEnv
               (req (Some ''token-a'') (Some ''64b7f1c2cccccccccccc0002'') [] [])
               sampleState)))
     = Reply 200 (Bytes ''application/octet-stream'' ''hi'')
   \<and> getFile sampleEnv
       (req (Some ''token-a'') (Some ''64b7f1c2cccccccccccc0002'') [] [(''size'', ''100'')])
       sampleState
     = (Reply 404 (Error ''Not found''), sampleState)
   \<and> fst (getFile sampleEnv
       (req None (Some ''64b7f1c2cccccccccccc0002'') [] [(''size'', ''100'')])
       (snd (putPublish sampleEnv
               (req (Some ''token-a'') (Some ''64b7f1c2cccccccccccc0002'') [] [])
               sampleState)))
     = Reply 404 (Error ''Not found'')"
proof -
  have i: "ObjectId sampleEnv (ofOpt (params (req t (Some ''64b7f1c2cccccccccccc0002'') [] q)
             ''id'')) = Some (file_id aTxt)" for t q
    by (simp add: sample_req sample_ids)
  have z: "filePath aTxt (Some ''100'') = Some ''/tmp/files_manager/blob-1_100''"
          "disk sampleState ''/tmp/files_manager/blob-1_100'' = None"
    by (simp_all add: filePath_def aTxt_def sampleState_def)
  note v = getFile_visibility [OF i sample_files(2) sample_aTxt(1,2)]
  have 1: "getFile sampleEnv (req None (Some ''64b7f1c2cccccccccccc0002'') [] []) sampleState
     = (Reply 404 (Error ''Not found''), sampleState)"
    using v [of None "[]", THEN conjunct1] by (simp add: sample_req)
  have 2: "getFile sampleEnv (req (Some ''token-b'') (Some ''64b7f1c2cccccccccccc0002'') [] [])
       sampleState = (Reply 404 (Error ''Not found''), sampleState)"
    using v [of "Some ''token-b''" "[]", THEN conjunct2, THEN conjunct1, rule_format,
             of "''token-b''"]
    by (simp add: sample_req sample_store sample_aTxt)
  have 3: "getFile sampleEnv (req (Some ''token-a'') (Some ''64b7f1c2cccccccccccc0002'') [] [])
       sampleState = (Reply 200 (Bytes ''application/octet-stream'' ''hi''), sampleState)"
    using v [of "Some ''token-a''" "[]", THEN conjunct2, THEN conjunct2, THEN conjunct1,
             rule_format, of "''token-a''" "''/tmp/files_manager/blob-1''" "''hi''"]
    by (simp add: sample_req sample_store sample_aTxt)
  have 4: "fst (getFile sampleEnv (req None (Some ''64b7f1c2cccccccccccc0002'') [] [])
       (snd (putPublish sampleEnv
               (req (Some ''token-a'') (Some ''64b7f1c2cccccccccccc0002'') [] [])
               sampleState)))
     = Reply 200 (Bytes ''application/octet-stream'' ''hi'')"
    using v [of None "[]", THEN conjunct2, THEN conjunct2, THEN conjunct2, THEN conjunct1,
             rule_format,
             of "req (Some ''token-a'') (Some ''64b7f1c2cccccccccccc0002'') [] []"
                "Node (aTxt\<lparr>isPublic := JBool True\<rparr>)"
                "snd (putPublish sampleEnv
                   (req (Some ''token-a'') (Some ''64b7f1c2cccccccccccc0002'') [] [])
                   sampleState)"
                "''/tmp/files_manager/blob-1''" "''hi''"]
          sample_publish
    by (simp add: prod_eq_iff sample_req sample_store sample_aTxt sample_ids)
  have 5: "getFile sampleEnv
       (req (Some ''token-a'') (Some ''64b7f1c2cccccccccccc0002'') [] [(''size'', ''100'')])
       sampleState
     = (Reply 404 (Error ''Not found''), sampleState)"
    using v [of "Some ''token-a''" "[(''size'', ''100'')]", THEN conjunct2, THEN conjunct2,
             THEN conjunct2, THEN conjunct2, THEN conjunct1, rule_format, of "''token-a''"]
    by (simp add: sample_req sample_store sample_aTxt z)
  have 6: "fst (getFile sampleEnv
       (req None (Some ''64b7f1c2cccccccccccc0002'') [] [(''size'', ''100'')])
       (snd (putPublish sampleEnv
               (req (Some ''token-a'') (Some ''64b7f1c2cccccccccccc0002'') [] [])
               sampleState)))
     = Reply 404 (Error ''Not found'')"
    using v [of None "[(''size'', ''100'')]", THEN conjunct2, THEN conjunct2, THEN conjunct2,
             THEN conjunct2, THEN conjunct2, rule_format,
             of "req (Some ''token-a'') (Some ''64b7f1c2cccccccccccc0002'') [] []"
                "Node (aTxt\<lparr>isPublic := JBool True\<rparr>)"
                "snd (putPublish sampleEnv
                   (req (Some ''token-a'') (Some ''64b7f1c2cccccccccccc0002'') [] [])
                   sampleState)"]
          sample_publish
    by (simp add: prod_eq_iff sample_req sample_store sample_aTxt sample_ids z)
  from 1 2 3 4 5 6 show ?thesis by blast
qed

text \<open>
  C4 as stated fails: \<open>a.txt\<close> is a stored private file whose bytes are on disk at its
  \<open>localPath\<close>, and Alice, its owner, asks for its data with \<open>size=100\<close>. No file is at
  \<open>localPath_100\<close>, and the request is answered 404, not 200 with the stored bytes.
\<close>

theorem getFile_size_counterexample:
  "aTxt \<in> set (files sampleState)
   \<and> file_id aTxt = Oid ''64b7f1c2cccccccccccc0002''
   \<and> type aTxt = JStr ''file'' \<and> isPublic aTxt = JBool False
   \<and> localPath aTxt = Some ''/tmp/files_manager/blob-1''
   \<and> disk sampleState ''/tmp/files_manager/blob-1'' = Some ''hi''
   \<and> redis_get sampleState ''auth_token-a'' = Some (toString (userId aTxt))
   \<and> fst (getFile sampleEnv
            (req (Some ''token-a'') (Some ''64b7f1c2cccccccccccc0002'') [] [(''size'', ''100'')])
            sampleState)
     = Reply 404 (Error ''Not found'')"
proof -
  have g: "fst (getFile sampleEnv
            (req (Some ''token-a'') (Some ''64b7f1c2cccccccccccc0002'') [] [(''size'', ''100'')])
            sampleState)
     = Reply 404 (Error ''Not found'')"
  proof -
    have i: "ObjectId sampleEnv (ofOpt (params (req (Some ''token-a'')
               (Some ''64b7f1c2cccccccccccc0002'') [] [(''size'', ''100'')]) ''id''))
             = Some (file_id aTxt)"
      by (simp add: sample_req sample_ids)
    have o: "truthy (isPublic aTxt)
           \<or> (\<exists>t. headers (req (Some ''token-a'') (Some ''64b7f1c2cccccccccccc0002'') []
                    [(''size'', ''100'')]) ''x-token'' = Some t \<and> t \<noteq> []
                 \<and> redis_get sampleState (''auth_'' @ t) = Some (toString (userId aTxt))
                 \<and> toString (userId aTxt) \<noteq> [])"
      by (simp add: sample_req sample_store sample_aTxt)
    have "filePath aTxt (query (req (Some ''token-a'') (Some ''64b7f1c2cccccccccccc0002'') []
             [(''size'', ''100'')]) ''size'') = Some ''/tmp/files_manager/blob-1_100''"
      by (simp add: sample_req filePath_def aTxt_def)
    moreover have "disk sampleState ''/tmp/files_manager/blob-1_100'' = None"
      by (simp add: sampleState_def)
    ultimately
    have a: "filePath aTxt (query (req (Some ''token-a'') (Some ''64b7f1c2cccccccccccc0002'') []
             [(''size'', ''100'')]) ''size'') = None
           \<or> (\<exists>p. filePath aTxt (query (req (Some ''token-a'')
                  (Some ''64b7f1c2cccccccccccc0002'') [] [(''size'', ''100'')]) ''size'') = Some p
                 \<and> disk sampleState p = None)"
      by simp
    show ?thesis
      by (simp add: getFile_owner_absent [OF i sample_files(2) sample_aTxt(1) o a])
  qed
  have "aTxt \<in> set (files sampleState)"
       "file_id aTxt = Oid ''64b7f1c2cccccccccccc0002''"
       "type aTxt = JStr ''file''" "isPublic aTxt = JBool False"
       "localPath aTxt = Some ''/tmp/files_manager/blob-1''"
    by (simp_all add: sampleState_def aTxt_def)
  with g show ?thesis
    by (simp add: sample_store sample_aTxt)
qed


lemma sample_documents:
  "type documents = JStr ''folder''" "isPublic documents = JBool False"
  "toString (userId documents) = ''64b7f1c2aaaaaaaaaaaa0001''"
  by (simp_all add: documents_def aliceId_def)

theorem getFile_folder_witness:
  "getFile sampleEnv (req (Some ''token-a'') (Some ''64b7f1c2cccccccccccc0001'') [] [])
       sampleState
     = (Reply 400 (Error noContent), sampleState)
   \<and> getFile sampleEnv (req (Some ''token-b'') (Some ''64b7f1c2cccccccccccc0001'') [] [])
       sampleState
     = (Reply 404 (Error ''Not found''), sampleState)"
proof -
  have i: "ObjectId sampleEnv (ofOpt (params (req t (Some ''64b7f1c2cccccccccccc0001'') [] [])
             ''id'')) = Some (file_id documents)" for t
    by (simp add: sample_req sample_ids)
  note v = getFile_folder [OF i sample_files(1) sample_documents(1)]
  show ?thesis
    using v [of "Some ''token-a''", THEN conjunct1] v [of "Some ''token-b''", THEN conjunct2]
    by (simp add: sample_req sample_store sample_documents)
qed

text \<open>
  C5 as stated fails: \<open>Documents\<close> is a stored folder, private, and a data request for it
  without a token is answered 404, not 400.
\<close>

theorem getFile_folder_counterexample:
  "documents \<in> set (files sampleState)
   \<and> file_id documents = Oid ''64b7f1c2cccccccccccc0001''
   \<and> type documents = JStr ''folder''
   \<and> fst (getFile sampleEnv (req None (Some ''64b7f1c2cccccccccccc0001'') [] [])
            sampleState)
     = Reply 404 (Error ''Not found'')"
proof -
  have "documents \<in> set (files sampleState)"
       "file_id documents = Oid ''64b7f1c2cccccccccccc0001''"
    by (simp_all add: sampleState_def documents_def)
  moreover
  have "fst (getFile sampleEnv (req None (Some ''64b7f1c2cccccccccccc0001'') [] [])
            sampleState)
     = Reply 404 (Error ''Not found'')"
    by (simp add: getFile_def sample_req sample_ids sample_files sample_documents replies)
  ultimately show ?thesis
    by (simp add: sample_documents)
qed

section \<open>Scoped lookup and listing\<close>

lemma getShow_scoped:
  assumes "tokenUser r s = Some uid" and "ObjectId e (JStr uid) = Some owner"
      and "ObjectId e (ofOpt (params r ''id'')) = Some fid"
  shows "((\<forall>d \<in> set (files s). file_id d = fid \<longrightarrow> userId d \<noteq> owner) \<longrightarrow>
            getShow e r s = (Reply 404 (Error ''Not found''), s))
       \<and> (\<forall>f. fst (getShow e r s) = Reply 200 (Node f) \<longrightarrow>
            f \<in> set (files s) \<and> file_id f = fid \<and> userId f = owner)"
proof (rule conjI; intro allI impI)
  assume "\<forall>d \<in> set (files s). file_id d = fid \<longrightarrow> userId d \<noteq> owner"
  then have "find (\<lambda>d. file_id d = fid \<and> userId d = owner) (files s) = None"
    by (auto simp: find_None_iff)
  with assms show "getShow e r s = (Reply 404 (Error ''Not found''), s)"
    by (simp add: getShow_def replies)
next
  fix f
  assume "fst (getShow e r s) = Reply 200 (Node f)"
  with assms have "find (\<lambda>d. file_id d = fid \<and> userId d = owner) (files s) = Some f"
    by (auto simp: getShow_def replies split: option.splits)
  from find_Some_D [OF this]
  show "f \<in> set (files s) \<and> file_id f = fid \<and> userId f = owner" by simp
qed

text \<open>
  C6, at the input where the code departs from it: Alice is authenticated and asks for
  \<open>/files/invalid-id\<close>. No stored document has that identifier, yet \<open>getShow\<close> sends no
  404: \<open>ObjectId('invalid-id')\<close> throws and the exception leaves the handler.
\<close>

theorem getShow_invalid_id:
  "tokenUser (req (Some ''token-a'') (Some ''invalid-id'') [] []) sampleState
     = Some ''64b7f1c2aaaaaaaaaaaa0001''
   \<and> files sampleState = [documents, aTxt]
   \<and> toString (file_id documents) \<noteq> ''invalid-id''
   \<and> toString (file_id aTxt) \<noteq> ''invalid-id''
   \<and> getShow sampleEnv (req (Some ''token-a'') (Some ''invalid-id'') [] []) sampleState
     = (Rejected, sampleState)"
proof -
  have "getShow sampleEnv (req (Some ''token-a'') (Some ''invalid-id'') [] []) sampleState
     = (Rejected, sampleState)"
    by (simp add: getShow_def tokenUser_sample sample_req sample_ids)
  moreover
  have "files sampleState = [documents, aTxt]"
       "toString (file_id documents) \<noteq> ''invalid-id''"
       "toString (file_id aTxt) \<noteq> ''invalid-id''"
    by (simp_all add: sampleState_def documents_def aTxt_def)
  ultimately show ?thesis
    by (simp add: tokenUser_sample)
qed

lemma getIndex_page:
  assumes "tokenUser r s = Some uid" and "ObjectId e (JStr uid) = Some owner"
      and "query r ''parentId'' = Some q" and "q \<noteq> []"
      and "if q = ''0'' then parent = Root else ObjectId e (JStr q) = Some pid \<and> parent = Ref pid"
      and "p = (case parseInt (ofOpt (query r ''page'')) of None \<Rightarrow> 0 | Some n \<Rightarrow> n)"
      and "0 \<le> p" and "p * 20 < 2 ^ 53"
  shows "getIndex e r s
           = (Reply 200
                (Nodes (take 20 (drop (nat p * 20)
                          (filter (\<lambda>d. parentId d = parent \<and> userId d = owner) (files s))))),
              s)"
proof -
  have "nat (p * 20) = nat p * 20"
    using assms(7) by (simp add: nat_mult_distrib)
  moreover have "\<not> p * 20 < 0" using assms(7) by simp
  ultimately show ?thesis
    using assms(1-5) unfolding getIndex_def Let_def assms(6) [symmetric]
    by (auto split: if_splits)
qed

lemma pages_disjoint:
  assumes "distinct xs"
  shows "set (take n (drop (p * n) xs)) \<inter> set (take n (drop (Suc p * n) xs)) = {}"
proof -
  have "drop (Suc p * n) xs = drop n (drop (p * n) xs)"
    by (simp add: add.commute)
  moreover have "distinct (drop (p * n) xs)" using assms by simp
  ultimately show ?thesis
    by (metis append_take_drop_id distinct_append set_take_subset
          disjoint_iff subsetD distinct_take)
qed

lemma getIndex_no_parentId:
  assumes "query r ''parentId'' = None"
      and "getIndex e r s = (Reply 200 (Nodes ns), s')"
  shows "\<forall>d \<in> set ns. parentId d \<noteq> Root"
  using assms
  by (auto simp: getIndex_def Let_def replies split: option.splits if_splits
           dest!: in_set_takeD in_set_dropD)

text \<open>
  C8, at the input where the code departs from it: Alice is authenticated, her folder
  \<open>Documents\<close> is at the root, and she lists without a \<open>parentId\<close>. The handler takes the
  number \<open>0\<close> for the absent parameter, compares it with the string \<open>'0'\<close>, and so
  matches on \<open>ObjectId(0)\<close>, an identifier the driver generates: the page is empty. With
  \<open>parentId=0\<close> in the query the page holds \<open>Documents\<close>.
\<close>

theorem getIndex_absent_parentId:
  "parentId documents = Root \<and> userId documents = aliceId
   \<and> documents \<in> set (files sampleState)
   \<and> ObjectId sampleEnv (JStr ''64b7f1c2aaaaaaaaaaaa0001'') = Some aliceId
   \<and> getIndex sampleEnv (req (Some ''token-a'') None [] []) sampleState
       = (Reply 200 (Nodes []), sampleState)
   \<and> getIndex sampleEnv (req (Some ''token-a'') None [] [(''parentId'', ''0'')]) sampleState
       = (Reply 200 (Nodes [documents]), sampleState)"
proof -
  have g: "ObjectId sampleEnv (JNum 0) = Some (Oid ''000000007f3a9c51d2e4b601'')"
    by (simp add: sampleEnv_def sampleObjectId_def hexByte_def)
  have p: "parseInt JUndefined = None"
    by (simp add: parseInt_def)
  have d: "parentId documents = Root" "userId documents = aliceId"
          "documents \<in> set (files sampleState)"
    by (simp_all add: documents_def sampleState_def)
  have 1: "getIndex sampleEnv (req (Some ''token-a'') None [] []) sampleState
       = (Reply 200 (Nodes []), sampleState)"
    by (simp add: getIndex_def tokenUser_sample sample_req sample_ids g p Let_def)
       (simp add: sampleState_def documents_def aTxt_def)
  have 2: "getIndex sampleEnv (req (Some ''token-a'') None [] [(''parentId'', ''0'')])
             sampleState = (Reply 200 (Nodes [documents]), sampleState)"
    by (simp add: getIndex_def tokenUser_sample sample_req sample_ids p Let_def)
       (simp add: sampleState_def documents_def aTxt_def aliceId_def)
  from d 1 2 sample_ids(1) show ?thesis by simp
qed

section \<open>Unique identifiers\<close>

text \<open>
  The handlers keep the identifiers of the collection distinct, as the unique index on
  \<open>_id\<close> does: the hypothesis of distinct identifiers above holds in every state the
  handlers reach from one where it holds.
\<close>

lemma persist_distinct:
  assumes "distinct (map file_id (files s))"
  shows "distinct (map file_id (files (snd (persist e uuid nid uid n t ip p dt s))))"
  using assms
  by (auto simp: persist_def insertOne_def Let_def split: option.splits jsval.splits)

lemma postUpload_distinct:
  assumes "distinct (map file_id (files s))"
  shows "distinct (map file_id (files (snd (postUpload e uuid nid r s))))"
  unfolding postUpload_def Let_def
  by (simp add: assms persist_distinct split: option.splits)

lemma handle_distinct:
  assumes "distinct (map file_id (files s))"
  shows "distinct (map file_id (files (snd (handle e c s))))"
proof (cases c)
  case (Call rt r uuid nid)
  have "map file_id (files (snd (setPublic flag e r s))) = map file_id (files s)" for flag
    by (auto simp: setPublic_def Let_def map_updateOne split: option.splits)
  with assms show ?thesis
    by (cases rt)
       (simp_all add: Call unchanged getConnect_files getDisconnect_files postUpload_distinct
          putPublish_def putUnpublish_def)
qed

lemma run_distinct:
  "distinct (map file_id (files s)) \<Longrightarrow> distinct (map file_id (files (run e cs s)))"
  by (induction cs arbitrary: s) (simp_all add: handle_distinct)

end
